theory Spec2Isabelle
  imports Complex_Main "HOL-Library.AList" "HOL-Library.Sublist"
begin

section \<open>Python values\<close>

text \<open>
  The transformer (\<^verbatim>\<open>src/etl/transform.py\<close>, class \<^verbatim>\<open>DataTransformer\<close>) works on
  records typed \<^verbatim>\<open>Dict[str, Any]\<close>: JSON-like values received from the two APIs.
  A value is one of Python's JSON types. A dictionary is an association list in
  insertion order, its keys strings.

  Floats are modelled as real numbers: the rounding of a result, and the infinities
  and NaN that float arithmetic yields without raising, are outside the model. The
  exceptions of arithmetic are modelled: \<^verbatim>\<open>ZeroDivisionError\<close>, and the
  \<^verbatim>\<open>OverflowError\<close> of converting or dividing integers beyond the double range.
\<close>

datatype pyval =
    PNone
  | PBool bool
  | PInt int
  | PFloat real
  | PStr string
  | PList "pyval list"
  | PDict "(string \<times> pyval) list"

type_synonym pydict = "(string \<times> pyval) list"

datatype pyerr = AttributeError | TypeError | ValueError | OverflowError | ZeroDivisionError

text \<open>A computation that may raise: \<open>Inl\<close> is the exception, \<open>Inr\<close> the value.\<close>

definition bindE :: "pyerr + 'a \<Rightarrow> ('a \<Rightarrow> pyerr + 'b) \<Rightarrow> pyerr + 'b" where
  "bindE m f = (case m of Inl e \<Rightarrow> Inl e | Inr x \<Rightarrow> f x)"

text \<open>\<^verbatim>\<open>[f(x) for x in xs]\<close>: the first exception ends the comprehension.\<close>

fun mapE :: "('a \<Rightarrow> pyerr + 'b) \<Rightarrow> 'a list \<Rightarrow> pyerr + 'b list" where
  "mapE f [] = Inr []"
| "mapE f (x # xs) = bindE (f x) (\<lambda>y. bindE (mapE f xs) (\<lambda>ys. Inr (y # ys)))"

text \<open>\<^verbatim>\<open>d.get(key, default)\<close> on a dictionary.\<close>

definition dict_get :: "pydict \<Rightarrow> string \<Rightarrow> pyval \<Rightarrow> pyval" where
  "dict_get d k dflt = (case map_of d k of None \<Rightarrow> dflt | Some v \<Rightarrow> v)"

text \<open>
  Only a dictionary has the method \<^verbatim>\<open>get\<close>: \<^verbatim>\<open>x.get(...)\<close> on any other JSON value
  raises \<^verbatim>\<open>AttributeError\<close>. Every function below that takes a record starts by
  calling \<^verbatim>\<open>get\<close> on it.
\<close>

fun as_dict :: "pyval \<Rightarrow> pyerr + pydict" where
  "as_dict (PDict d) = Inr d"
| "as_dict _ = Inl AttributeError"

fun is_dict :: "pyval \<Rightarrow> bool" where
  "is_dict (PDict d) = True"
| "is_dict _ = False"

text \<open>Truth value of a value (\<^verbatim>\<open>if x\<close>, \<^verbatim>\<open>not x\<close>, \<^verbatim>\<open>bool(x)\<close>).\<close>

fun truthy :: "pyval \<Rightarrow> bool" where
  "truthy PNone = False"
| "truthy (PBool b) = b"
| "truthy (PInt n) = (n \<noteq> 0)"
| "truthy (PFloat x) = (x \<noteq> 0)"
| "truthy (PStr s) = (s \<noteq> [])"
| "truthy (PList xs) = (xs \<noteq> [])"
| "truthy (PDict d) = (d \<noteq> [])"

text \<open>\<^verbatim>\<open>len(x)\<close>: defined on strings, lists and dictionaries.\<close>

fun py_len :: "pyval \<Rightarrow> pyerr + int" where
  "py_len (PStr s) = Inr (int (length s))"
| "py_len (PList xs) = Inr (int (length xs))"
| "py_len (PDict d) = Inr (int (length d))"
| "py_len _ = Inl TypeError"

text \<open>\<^verbatim>\<open>for x in v\<close>: a string yields its characters, a dictionary its keys.\<close>

fun py_iter :: "pyval \<Rightarrow> pyerr + pyval list" where
  "py_iter (PList xs) = Inr xs"
| "py_iter (PStr s) = Inr (map (\<lambda>c. PStr [c]) s)"
| "py_iter (PDict d) = Inr (map (\<lambda>kv. PStr (fst kv)) d)"
| "py_iter _ = Inl TypeError"

text \<open>\<^verbatim>\<open>x[:n]\<close>: a dictionary cannot be sliced, a number cannot be subscripted.\<close>

fun py_slice_to :: "nat \<Rightarrow> pyval \<Rightarrow> pyerr + pyval" where
  "py_slice_to n (PStr s) = Inr (PStr (take n s))"
| "py_slice_to n (PList xs) = Inr (PList (take n xs))"
| "py_slice_to n _ = Inl TypeError"

subsection \<open>Numbers\<close>

text \<open>
  \<^verbatim>\<open>bool\<close> is a subclass of \<^verbatim>\<open>int\<close>; integers and floats compare by value.
  \<open>num_of\<close> is the number a value stands for in arithmetic, together with whether it
  is a float.
\<close>

fun num_of :: "pyval \<Rightarrow> (bool \<times> real) option" where
  "num_of (PBool b) = Some (False, if b then 1 else 0)"
| "num_of (PInt n) = Some (False, real_of_int n)"
| "num_of (PFloat x) = Some (True, x)"
| "num_of _ = None"

text \<open>\<^verbatim>\<open>x > c\<close> and \<^verbatim>\<open>x >= c\<close> for a numeric literal \<^verbatim>\<open>c\<close>.\<close>

definition py_gt_num :: "pyval \<Rightarrow> real \<Rightarrow> pyerr + bool" where
  "py_gt_num v c = (case num_of v of None \<Rightarrow> Inl TypeError | Some (_, x) \<Rightarrow> Inr (c < x))"

definition py_ge_num :: "pyval \<Rightarrow> real \<Rightarrow> pyerr + bool" where
  "py_ge_num v c = (case num_of v of None \<Rightarrow> Inl TypeError | Some (_, x) \<Rightarrow> Inr (c \<le> x))"

text \<open>
  A real number rounds to a finite double when its magnitude is below
  \<open>2^1024 - 2^970\<close>. Where Python turns an integer operand into a float
  (arithmetic with a float operand, \<^verbatim>\<open>float(n)\<close>) an integer beyond that raises
  \<^verbatim>\<open>OverflowError\<close>; so does the true division of two integers whose quotient is
  beyond it.
\<close>

definition float_limit :: int where
  "float_limit = 2 ^ 1024 - 2 ^ 970"

definition fits_double :: "real \<Rightarrow> bool" where
  "fits_double x = (\<bar>x\<bar> < real_of_int float_limit)"

definition operand_float :: "bool \<times> real \<Rightarrow> pyerr + real" where
  "operand_float n = (if fst n \<or> fits_double (snd n) then Inr (snd n) else Inl OverflowError)"

text \<open>
  \<^verbatim>\<open>a + b\<close>: two integers give an integer, a float operand gives a float; two strings
  or two lists are concatenated; anything else is a \<^verbatim>\<open>TypeError\<close>.
\<close>

fun int_val :: "pyval \<Rightarrow> int option" where
  "int_val (PBool b) = Some (if b then 1 else 0)"
| "int_val (PInt n) = Some n"
| "int_val _ = None"

definition py_add :: "pyval \<Rightarrow> pyval \<Rightarrow> pyerr + pyval" where
  "py_add a b =
     (case (int_val a, int_val b) of
        (Some m, Some n) \<Rightarrow> Inr (PInt (m + n))
      | _ \<Rightarrow>
        (case (num_of a, num_of b) of
           (Some x, Some y) \<Rightarrow>
             bindE (operand_float x) (\<lambda>x'. bindE (operand_float y) (\<lambda>y'. Inr (PFloat (x' + y'))))
         | _ \<Rightarrow>
           (case (a, b) of
              (PStr s, PStr t) \<Rightarrow> Inr (PStr (s @ t))
            | (PList xs, PList ys) \<Rightarrow> Inr (PList (xs @ ys))
            | _ \<Rightarrow> Inl TypeError)))"

text \<open>
  \<^verbatim>\<open>a / b\<close>: true division of two numbers, a float. With a float operand the
  operands are converted first and a zero divisor is tested then; two integers are
  tested for a zero divisor first and divided exactly.
\<close>

definition py_truediv :: "pyval \<Rightarrow> pyval \<Rightarrow> pyerr + real" where
  "py_truediv a b =
     (case (num_of a, num_of b) of
        (Some x, Some y) \<Rightarrow>
          if fst x \<or> fst y
          then bindE (operand_float x) (\<lambda>x'. bindE (operand_float y) (\<lambda>y'.
                 if y' = 0 then Inl ZeroDivisionError else Inr (x' / y')))
          else if snd y = 0 then Inl ZeroDivisionError
          else if fits_double (snd x / snd y) then Inr (snd x / snd y)
          else Inl OverflowError
      | _ \<Rightarrow> Inl TypeError)"

subsection \<open>Library functions\<close>

text \<open>
  The functions of Python's standard library whose results depend on Unicode tables,
  on number syntax or on \<^verbatim>\<open>difflib\<close> are parameters of the model: every theorem
  holds for any such functions.
\<close>

record pylib =
  str_lower :: "string \<Rightarrow> string"
  str_strip :: "string \<Rightarrow> string"
  sub_spaces :: "string \<Rightarrow> string"
  int_of_str :: "string \<Rightarrow> int option"
  float_of_str :: "string \<Rightarrow> real option"
  search_digits :: "char \<Rightarrow> string \<Rightarrow> string option"
  seq_ratio :: "string \<Rightarrow> string \<Rightarrow> real"
  py_repr :: "pyval \<Rightarrow> string"

text \<open>
  \<^item> \<open>str_lower\<close>, \<open>str_strip\<close>: \<^verbatim>\<open>s.lower()\<close>, \<^verbatim>\<open>s.strip()\<close>;
  \<^item> \<open>sub_spaces s\<close>: \<^verbatim>\<open>re.sub(r'\s+', ' ', s)\<close>;
  \<^item> \<open>int_of_str\<close>, \<open>float_of_str\<close>: \<^verbatim>\<open>int(s)\<close>, \<^verbatim>\<open>float(s)\<close> of a string,
    \<open>None\<close> where Python raises \<^verbatim>\<open>ValueError\<close>;
  \<^item> \<open>search_digits u s\<close>: group 1 of \<^verbatim>\<open>re.search(r'(\d+)U', s)\<close> for the unit
    letter \<open>u\<close>, \<open>None\<close> when nothing matches;
  \<^item> \<open>seq_ratio a b\<close>: \<^verbatim>\<open>SequenceMatcher(None, a, b).ratio()\<close>;
  \<^item> \<open>py_repr v\<close>: \<^verbatim>\<open>str(v)\<close>, as an f-string formats a value that is not a string.
\<close>

text \<open>An attribute of \<^verbatim>\<open>str\<close> called on another JSON value raises \<^verbatim>\<open>AttributeError\<close>.\<close>

fun py_lower :: "pylib \<Rightarrow> pyval \<Rightarrow> pyerr + string" where
  "py_lower L (PStr s) = Inr (str_lower L s)"
| "py_lower L _ = Inl AttributeError"

text \<open>An f-string field \<^verbatim>\<open>{v}\<close>.\<close>

fun py_format :: "pylib \<Rightarrow> pyval \<Rightarrow> string" where
  "py_format L (PStr s) = s"
| "py_format L v = py_repr L v"

text \<open>
  \<^verbatim>\<open>int(v)\<close>: a float is truncated towards zero; \<^verbatim>\<open>None\<close>, lists and dictionaries
  are a \<^verbatim>\<open>TypeError\<close>, an unreadable string a \<^verbatim>\<open>ValueError\<close>.
\<close>

fun py_int :: "pylib \<Rightarrow> pyval \<Rightarrow> pyerr + int" where
  "py_int L (PBool b) = Inr (if b then 1 else 0)"
| "py_int L (PInt n) = Inr n"
| "py_int L (PFloat x) = Inr (if 0 \<le> x then \<lfloor>x\<rfloor> else \<lceil>x\<rceil>)"
| "py_int L (PStr s) = (case int_of_str L s of None \<Rightarrow> Inl ValueError | Some n \<Rightarrow> Inr n)"
| "py_int L _ = Inl TypeError"

text \<open>\<^verbatim>\<open>float(v)\<close>: an integer converts when it fits a double.\<close>

fun py_float :: "pylib \<Rightarrow> pyval \<Rightarrow> pyerr + real" where
  "py_float L (PBool b) = Inr (if b then 1 else 0)"
| "py_float L (PInt n) = (if \<bar>n\<bar> < float_limit then Inr (real_of_int n) else Inl OverflowError)"
| "py_float L (PFloat x) = Inr x"
| "py_float L (PStr s) = (case float_of_str L s of None \<Rightarrow> Inl ValueError | Some x \<Rightarrow> Inr x)"
| "py_float L _ = Inl TypeError"

section \<open>Helper methods of the transformer\<close>

text \<open>
  \<^verbatim>\<open>_safe_int\<close> and \<^verbatim>\<open>_safe_float\<close>: \<^verbatim>\<open>None\<close> gives 0; the handler catches
  \<^verbatim>\<open>ValueError\<close> and \<^verbatim>\<open>TypeError\<close> only, any other exception leaves the method.
\<close>

definition safe_int :: "pylib \<Rightarrow> pyval \<Rightarrow> pyerr + int" where
  "safe_int L v =
     (if v = PNone then Inr 0
      else (case py_int L v of
              Inl ValueError \<Rightarrow> Inr 0
            | Inl TypeError \<Rightarrow> Inr 0
            | r \<Rightarrow> r))"

definition safe_float :: "pylib \<Rightarrow> pyval \<Rightarrow> pyerr + real" where
  "safe_float L v =
     (if v = PNone then Inr 0
      else (case py_float L v of
              Inl ValueError \<Rightarrow> Inr 0
            | Inl TypeError \<Rightarrow> Inr 0
            | r \<Rightarrow> r))"

text \<open>
  \<^verbatim>\<open>_parse_date\<close>. A false value gives the empty string. Otherwise the length
  decides, inside \<^verbatim>\<open>try\<close>: 4 appends \<^verbatim>\<open>-01-01\<close>, 7 appends \<^verbatim>\<open>-01\<close>, any other
  length returns the first ten items. The bare \<^verbatim>\<open>except\<close> turns every exception
  into the empty string.
\<close>

definition parse_date :: "pylib \<Rightarrow> pyval \<Rightarrow> pyval" where
  "parse_date L date_str =
     (if \<not> truthy date_str then PStr []
      else (case bindE (py_len date_str) (\<lambda>n.
                   if n = 4 then Inr (PStr (py_format L date_str @ ''-01-01''))
                   else if n = 7 then Inr (PStr (py_format L date_str @ ''-01''))
                   else py_slice_to 10 date_str) of
              Inl e \<Rightarrow> PStr []
            | Inr r \<Rightarrow> r))"

text \<open>
  \<^verbatim>\<open>_calculate_duration_similarity\<close>, on the integer seconds it is called with.
  \<^verbatim>\<open>diff / max_duration\<close> is a true division of integers, which raises on a zero
  divisor and on a quotient beyond the double range.
\<close>

definition int_truediv :: "int \<Rightarrow> int \<Rightarrow> pyerr + real" where
  "int_truediv a b =
     (if b = 0 then Inl ZeroDivisionError
      else if fits_double (real_of_int a / real_of_int b) then Inr (real_of_int a / real_of_int b)
      else Inl OverflowError)"

definition calculate_duration_similarity :: "int \<Rightarrow> int \<Rightarrow> pyerr + real" where
  "calculate_duration_similarity duration1 duration2 =
     (if duration1 = 0 \<or> duration2 = 0 then Inr 0
      else bindE (int_truediv \<bar>duration1 - duration2\<bar> (max duration1 duration2))
             (\<lambda>q. Inr (max 0 (1 - q))))"

section \<open>The matcher\<close>

text \<open>\<^verbatim>\<open>needle in haystack\<close> on strings: \<open>needle\<close> occurs as a contiguous substring.\<close>

fun is_substring :: "string \<Rightarrow> string \<Rightarrow> bool" where
  "is_substring needle [] = (needle = [])"
| "is_substring needle (c # cs) = (take (length needle) (c # cs) = needle \<or> is_substring needle cs)"

text \<open>
  \<^verbatim>\<open>_calculate_similarity\<close>. The three lower-cased texts are computed first. When the
  video carries both search fields and they equal, lower-cased, the track's artist
  and name, the score is \<^verbatim>\<open>1.0\<close>; otherwise it is
  \<^verbatim>\<open>(name_similarity * 0.7) + (artist_in_title * 0.3)\<close>.
\<close>

definition calculate_similarity :: "pylib \<Rightarrow> pyval \<Rightarrow> pyval \<Rightarrow> pyerr + real" where
  "calculate_similarity L track video =
     bindE (as_dict track) (\<lambda>t.
     bindE (py_lower L (dict_get t ''name'' (PStr []))) (\<lambda>track_name.
     bindE (py_lower L (dict_get t ''artist_name'' (PStr []))) (\<lambda>artist_name.
     bindE (as_dict video) (\<lambda>v.
     bindE (py_lower L (dict_get v ''title'' (PStr []))) (\<lambda>video_title.
     bindE (if truthy (dict_get v ''search_artist'' PNone) \<and> truthy (dict_get v ''search_track'' PNone)
            then bindE (py_lower L (dict_get v ''search_artist'' (PStr []))) (\<lambda>search_artist.
                 bindE (py_lower L (dict_get v ''search_track'' (PStr []))) (\<lambda>search_track.
                 Inr (search_artist = artist_name \<and> search_track = track_name)))
            else Inr False) (\<lambda>exact.
     if exact then Inr 1
     else Inr (seq_ratio L track_name video_title * 0.7 +
               (if is_substring artist_name video_title then 1 else 0) * 0.3)))))))"

text \<open>
  The loop of \<^verbatim>\<open>_find_related_videos\<close>: a video is appended to \<^verbatim>\<open>related\<close> with its
  score when the score is above \<^verbatim>\<open>0.3\<close>. An exception of the scoring leaves the loop.
\<close>

fun collect_related ::
  "pylib \<Rightarrow> pyval \<Rightarrow> pyval list \<Rightarrow> (pyval \<times> real) list \<Rightarrow> pyerr + (pyval \<times> real) list" where
  "collect_related L track [] related = Inr related"
| "collect_related L track (video # videos) related =
     bindE (calculate_similarity L track video) (\<lambda>similarity_score.
       collect_related L track videos
         (if 0.3 < similarity_score then related @ [(video, similarity_score)] else related))"

text \<open>
  \<^verbatim>\<open>xs.sort(key=..., reverse=True)\<close> and \<^verbatim>\<open>sorted(xs, key=..., reverse=True)\<close>: CPython
  reverses the list, sorts it stably in ascending order and reverses the result.
\<close>

definition sort_desc :: "('a \<Rightarrow> 'k::linorder) \<Rightarrow> 'a list \<Rightarrow> 'a list" where
  "sort_desc key xs = rev (sort_key key (rev xs))"

text \<open>
  \<^verbatim>\<open>_find_related_videos\<close>: the track's lower-cased name and artist are computed
  (and not used), the candidates are collected, sorted by score and cut to five.
\<close>

definition find_related_videos :: "pylib \<Rightarrow> pyval \<Rightarrow> pyval list \<Rightarrow> pyerr + (pyval \<times> real) list" where
  "find_related_videos L track videos =
     bindE (as_dict track) (\<lambda>t.
     bindE (py_lower L (dict_get t ''name'' (PStr []))) (\<lambda>track_name.
     bindE (py_lower L (dict_get t ''artist_name'' (PStr []))) (\<lambda>artist_name.
     bindE (collect_related L track videos []) (\<lambda>related.
     Inr (take 5 (sort_desc snd related))))))"

text \<open>The videos that can be scored against a track, each with its score, in input order.\<close>

definition scored :: "pylib \<Rightarrow> pyval \<Rightarrow> pyval list \<Rightarrow> (pyval \<times> real) list" where
  "scored L track videos =
     concat (map (\<lambda>v. case calculate_similarity L track v of Inl e \<Rightarrow> [] | Inr s \<Rightarrow> [(v, s)]) videos)"

section \<open>Dictionaries under construction\<close>

text \<open>
  \<^verbatim>\<open>d[key] = value\<close> replaces the value of a key in place and appends a new key;
  \<^verbatim>\<open>d.update(other)\<close> assigns the entries of \<^verbatim>\<open>other\<close> in turn.
\<close>

definition dict_set :: "pydict \<Rightarrow> string \<Rightarrow> pyval \<Rightarrow> pydict" where
  "dict_set d k v = AList.update k v d"

definition dict_update :: "pydict \<Rightarrow> pydict \<Rightarrow> pydict" where
  "dict_update d other = foldl (\<lambda>acc kv. dict_set acc (fst kv) (snd kv)) d other"

section \<open>The normaliser's helper methods\<close>

text \<open>
  \<^verbatim>\<open>_clean_text\<close>: a false value gives the empty string; otherwise the text is stripped
  and its whitespace runs collapsed. Only a string has \<^verbatim>\<open>strip\<close>.
\<close>

definition clean_text :: "pylib \<Rightarrow> pyval \<Rightarrow> pyerr + string" where
  "clean_text L text =
     (if \<not> truthy text then Inr []
      else (case text of
              PStr s \<Rightarrow> Inr (sub_spaces L (str_strip L s))
            | _ \<Rightarrow> Inl AttributeError))"

text \<open>
  \<^verbatim>\<open>_parse_datetime\<close>. \<^verbatim>\<open>'T' in x\<close> is a substring test on a string, a membership
  test on a list and a key test on a dictionary. \<^verbatim>\<open>replace('Z', '')\<close> deletes every
  \<^verbatim>\<open>Z\<close>, \<^verbatim>\<open>split('.')[0]\<close> keeps what stands before the first dot.
\<close>

fun contains_T :: "pyval \<Rightarrow> pyerr + bool" where
  "contains_T (PStr s) = Inr (CHR ''T'' \<in> set s)"
| "contains_T (PList xs) = Inr (PStr ''T'' \<in> set xs)"
| "contains_T (PDict d) = Inr (''T'' \<in> set (map fst d))"
| "contains_T _ = Inl TypeError"

fun strip_zone :: "pyval \<Rightarrow> pyerr + pyval" where
  "strip_zone (PStr s) = Inr (PStr (takeWhile (\<lambda>c. c \<noteq> CHR ''.'') (filter (\<lambda>c. c \<noteq> CHR ''Z'') s)))"
| "strip_zone _ = Inl AttributeError"

definition parse_datetime :: "pyval \<Rightarrow> pyval" where
  "parse_datetime datetime_str =
     (if \<not> truthy datetime_str then PStr []
      else (case bindE (contains_T datetime_str) (\<lambda>has_T.
                   if has_T then strip_zone datetime_str else Inr datetime_str) of
              Inl e \<Rightarrow> PStr []
            | Inr r \<Rightarrow> r))"

text \<open>
  \<^verbatim>\<open>_parse_duration_to_seconds\<close>. \<^verbatim>\<open>replace('PT', '')\<close> deletes every occurrence of
  \<^verbatim>\<open>PT\<close>, left to right. Each unit found contributes its number times its weight.
\<close>

fun remove_PT :: "string \<Rightarrow> string" where
  "remove_PT (a # b # cs) =
     (if a = CHR ''P'' \<and> b = CHR ''T'' then remove_PT cs else a # remove_PT (b # cs))"
| "remove_PT cs = cs"

definition unit_seconds :: "pylib \<Rightarrow> char \<Rightarrow> int \<Rightarrow> string \<Rightarrow> pyerr + int" where
  "unit_seconds L u weight duration =
     (case search_digits L u duration of
        None \<Rightarrow> Inr 0
      | Some g \<Rightarrow> (case int_of_str L g of None \<Rightarrow> Inl ValueError | Some n \<Rightarrow> Inr (n * weight)))"

definition parse_duration_to_seconds :: "pylib \<Rightarrow> pyval \<Rightarrow> int" where
  "parse_duration_to_seconds L duration =
     (if \<not> truthy duration then 0
      else (case (case duration of
                    PStr s \<Rightarrow>
                      bindE (unit_seconds L (CHR ''H'') 3600 (remove_PT s)) (\<lambda>hours.
                      bindE (unit_seconds L (CHR ''M'') 60 (remove_PT s)) (\<lambda>minutes.
                      bindE (unit_seconds L (CHR ''S'') 1 (remove_PT s)) (\<lambda>seconds.
                      Inr (0 + hours + minutes + seconds))))
                  | _ \<Rightarrow> Inl AttributeError) of
              Inl e \<Rightarrow> 0
            | Inr total_seconds \<Rightarrow> total_seconds))"

text \<open>The three category methods, on the integers they are called with.\<close>

definition categorize_popularity :: "int \<Rightarrow> string" where
  "categorize_popularity popularity =
     (if popularity \<ge> 80 then ''very_high''
      else if popularity \<ge> 60 then ''high''
      else if popularity \<ge> 40 then ''medium''
      else if popularity \<ge> 20 then ''low''
      else ''very_low'')"

definition categorize_duration :: "int \<Rightarrow> string" where
  "categorize_duration duration_seconds =
     (if duration_seconds < 60 then ''very_short''
      else if duration_seconds < 180 then ''short''
      else if duration_seconds < 300 then ''medium''
      else if duration_seconds < 600 then ''long''
      else ''very_long'')"

definition categorize_views :: "int \<Rightarrow> string" where
  "categorize_views view_count =
     (if view_count \<ge> 10000000 then ''viral''
      else if view_count \<ge> 1000000 then ''very_popular''
      else if view_count \<ge> 100000 then ''popular''
      else if view_count \<ge> 10000 then ''moderate''
      else ''low'')"

text \<open>
  \<^verbatim>\<open>_categorize_audio_features\<close>: three chains of comparisons against float literals.
  A comparison of a value that is not a number raises \<^verbatim>\<open>TypeError\<close>.
\<close>

definition energy_level :: "pyval \<Rightarrow> pyerr + string" where
  "energy_level energy =
     bindE (py_ge_num energy 0.8) (\<lambda>c1. if c1 then Inr ''very_high'' else
     bindE (py_ge_num energy 0.6) (\<lambda>c2. if c2 then Inr ''high'' else
     bindE (py_ge_num energy 0.4) (\<lambda>c3. if c3 then Inr ''medium'' else
     bindE (py_ge_num energy 0.2) (\<lambda>c4. if c4 then Inr ''low'' else Inr ''very_low''))))"

definition mood_label :: "pyval \<Rightarrow> pyerr + string" where
  "mood_label valence =
     bindE (py_ge_num valence 0.8) (\<lambda>c1. if c1 then Inr ''very_positive'' else
     bindE (py_ge_num valence 0.6) (\<lambda>c2. if c2 then Inr ''positive'' else
     bindE (py_ge_num valence 0.4) (\<lambda>c3. if c3 then Inr ''neutral'' else
     bindE (py_ge_num valence 0.2) (\<lambda>c4. if c4 then Inr ''negative'' else Inr ''very_negative''))))"

definition danceability_level :: "pyval \<Rightarrow> pyerr + string" where
  "danceability_level danceability =
     bindE (py_ge_num danceability 0.8) (\<lambda>c1. if c1 then Inr ''very_danceable'' else
     bindE (py_ge_num danceability 0.6) (\<lambda>c2. if c2 then Inr ''danceable'' else
     bindE (py_ge_num danceability 0.4) (\<lambda>c3. if c3 then Inr ''moderate'' else Inr ''not_danceable'')))"

definition categorize_audio_features :: "pyval \<Rightarrow> pyerr + pydict" where
  "categorize_audio_features features =
     bindE (as_dict features) (\<lambda>f.
     bindE (energy_level (dict_get f ''energy'' (PInt 0))) (\<lambda>energy_label.
     bindE (mood_label (dict_get f ''valence'' (PInt 0))) (\<lambda>mood.
     bindE (danceability_level (dict_get f ''danceability'' (PInt 0))) (\<lambda>dance_label.
     Inr [(''energy_level'', PStr energy_label),
          (''mood'', PStr mood),
          (''danceability_level'', PStr dance_label)]))))"

text \<open>
  \<^verbatim>\<open>_calculate_engagement_metrics\<close>. The three divisions stand in the branch
  \<^verbatim>\<open>view_count > 0\<close>; the other branch stores \<^verbatim>\<open>0.0\<close> three times.
  \<^verbatim>\<open>min(100, x)\<close> is \<^verbatim>\<open>x\<close> when \<^verbatim>\<open>x < 100\<close> and the integer 100 otherwise.
\<close>

definition min_100 :: "real \<Rightarrow> pyval" where
  "min_100 x = (if x < 100 then PFloat x else PInt 100)"

definition calculate_engagement_metrics :: "pyval \<Rightarrow> pyerr + pydict" where
  "calculate_engagement_metrics video =
     bindE (as_dict video) (\<lambda>v.
     bindE (py_gt_num (dict_get v ''view_count'' (PInt 0)) 0) (\<lambda>has_views.
     bindE (if has_views
            then bindE (py_truediv (dict_get v ''like_count'' (PInt 0)) (dict_get v ''view_count'' (PInt 0))) (\<lambda>like_rate.
                 bindE (py_truediv (dict_get v ''comment_count'' (PInt 0)) (dict_get v ''view_count'' (PInt 0))) (\<lambda>comment_rate.
                 bindE (py_add (dict_get v ''like_count'' (PInt 0)) (dict_get v ''comment_count'' (PInt 0))) (\<lambda>interactions.
                 bindE (py_truediv interactions (dict_get v ''view_count'' (PInt 0))) (\<lambda>engagement_rate.
                 Inr (like_rate, comment_rate, engagement_rate)))))
            else Inr (0, 0, 0)) (\<lambda>rates.
     Inr [(''like_rate'', PFloat (fst rates)),
          (''comment_rate'', PFloat (fst (snd rates))),
          (''engagement_rate'', PFloat (snd (snd rates))),
          (''engagement_score'', min_100 (snd (snd rates) * 1000))])))"

text \<open>The metrics of a video without views.\<close>

definition zero_metrics :: pydict where
  "zero_metrics =
     [(''like_rate'', PFloat 0), (''comment_rate'', PFloat 0),
      (''engagement_rate'', PFloat 0), (''engagement_score'', PFloat 0)]"

text \<open>\<^verbatim>\<open>_is_music_video\<close> and \<^verbatim>\<open>_is_official_content\<close>.\<close>

definition music_keywords :: "string list" where
  "music_keywords = [''music'', ''song'', ''official'', ''video'', ''audio'', ''lyrics'', ''album'']"

definition official_keywords :: "string list" where
  "official_keywords = [''official'', ''vevo'', ''records'', ''music'']"

definition is_music_video :: "pylib \<Rightarrow> pyval \<Rightarrow> pyerr + bool" where
  "is_music_video L video =
     bindE (as_dict video) (\<lambda>v.
     bindE (py_lower L (dict_get v ''title'' (PStr []))) (\<lambda>title.
     bindE (py_lower L (dict_get v ''description'' (PStr []))) (\<lambda>description.
     bindE (py_iter (dict_get v ''tags'' (PList []))) (\<lambda>tag_items.
     bindE (mapE (py_lower L) tag_items) (\<lambda>tags.
     Inr (length (filter (\<lambda>keyword. is_substring keyword title) music_keywords) \<ge> 2 \<or>
          length (concat (map (\<lambda>tag. filter (\<lambda>keyword. is_substring keyword tag) music_keywords) tags)) \<ge> 3 \<or>
          (truthy (dict_get v ''search_artist'' PNone) \<and> truthy (dict_get v ''search_track'' PNone))))))))"

definition is_official_content :: "pylib \<Rightarrow> pyval \<Rightarrow> pyerr + bool" where
  "is_official_content L video =
     bindE (as_dict video) (\<lambda>v.
     bindE (py_lower L (dict_get v ''title'' (PStr []))) (\<lambda>title.
     bindE (py_lower L (dict_get v ''channel_title'' (PStr []))) (\<lambda>channel.
     Inr (list_ex (\<lambda>keyword. is_substring keyword title \<or> is_substring keyword channel) official_keywords))))"

section \<open>The batch transformations\<close>

text \<open>
  Each batch method loops over the raw records; the body of the loop stands in
  \<^verbatim>\<open>try\<close>. The body is modelled by a function of one record, which also takes the
  reading of \<^verbatim>\<open>datetime.utcnow().isoformat()\<close> taken while that record is processed.
  Where the source reads back an entry it has just stored
  (\<^verbatim>\<open>transformed_track['popularity']\<close>), the model uses the stored value.
\<close>

subsection \<open>Tracks\<close>

definition transform_track :: "pylib \<Rightarrow> string \<Rightarrow> pyval \<Rightarrow> pyerr + pydict" where
  "transform_track L now track =
     bindE (as_dict track) (\<lambda>d.
     bindE (clean_text L (dict_get d ''name'' (PStr []))) (\<lambda>name.
     bindE (clean_text L (dict_get d ''artist_name'' (PStr []))) (\<lambda>artist_name.
     bindE (clean_text L (dict_get d ''album_name'' (PStr []))) (\<lambda>album_name.
     bindE (py_iter (dict_get d ''artists'' (PList []))) (\<lambda>artist_items.
     bindE (mapE (clean_text L) artist_items) (\<lambda>artists.
     bindE (safe_int L (dict_get d ''popularity'' (PInt 0))) (\<lambda>popularity.
     bindE (safe_int L (dict_get d ''duration_ms'' (PInt 0))) (\<lambda>duration_ms.
     bindE (safe_int L (dict_get d ''total_tracks'' (PInt 0))) (\<lambda>total_tracks.
     bindE (safe_int L (dict_get d ''disc_number'' (PInt 1))) (\<lambda>disc_number.
     bindE (safe_int L (dict_get d ''track_number'' (PInt 1))) (\<lambda>track_number.
     bindE (py_len (dict_get d ''available_markets'' (PList []))) (\<lambda>market_count.
     bindE (py_len (dict_get d ''artists'' (PList []))) (\<lambda>artist_count.
     bindE (py_len (dict_get d ''name'' (PStr []))) (\<lambda>name_length.
     bindE (py_len (dict_get d ''artist_name'' (PStr []))) (\<lambda>artist_name_length.
     Inr (dict_set (dict_set
       [(''track_id'', dict_get d ''track_id'' (PStr [])),
        (''album_id'', dict_get d ''album_id'' (PStr [])),
        (''name'', PStr name),
        (''artist_name'', PStr artist_name),
        (''album_name'', PStr album_name),
        (''artists'', PList (map PStr artists)),
        (''popularity'', PInt popularity),
        (''duration_ms'', PInt duration_ms),
        (''duration_seconds'', PInt (duration_ms div 1000)),
        (''explicit'', PBool (truthy (dict_get d ''explicit'' (PBool False)))),
        (''is_local'', PBool (truthy (dict_get d ''is_local'' (PBool False)))),
        (''preview_url'', dict_get d ''preview_url'' (PStr [])),
        (''external_urls'', dict_get d ''external_urls'' (PDict [])),
        (''release_date'', parse_date L (dict_get d ''release_date'' (PStr []))),
        (''total_tracks'', PInt total_tracks),
        (''disc_number'', PInt disc_number),
        (''track_number'', PInt track_number),
        (''available_markets'', dict_get d ''available_markets'' (PList [])),
        (''market_count'', PInt market_count),
        (''extraction_timestamp'', dict_get d ''extraction_timestamp'' (PStr [])),
        (''source_playlist_id'', dict_get d ''source_playlist_id'' (PStr [])),
        (''data_source'', dict_get d ''data_source'' (PStr ''spotify'')),
        (''artist_count'', PInt artist_count),
        (''is_collaboration'', PBool (artist_count > 1)),
        (''name_length'', PInt name_length),
        (''artist_name_length'', PInt artist_name_length),
        (''transformed_at'', PStr now)]
       ''popularity_category'' (PStr (categorize_popularity popularity)))
       ''duration_category'' (PStr (categorize_duration (duration_ms div 1000)))))))))))))))))))"

text \<open>
  The loop with its handler. A record whose body raises is skipped: the handler logs
  \<^verbatim>\<open>track.get('track_id', 'unknown')\<close> and continues. That call stands outside any
  \<^verbatim>\<open>try\<close>, so it ends the whole method when the record is not a dictionary.
\<close>

fun transform_spotify_tracks_from ::
  "pylib \<Rightarrow> (nat \<Rightarrow> string) \<Rightarrow> nat \<Rightarrow> pyval list \<Rightarrow> pyval list \<Rightarrow> pyerr + pyval list" where
  "transform_spotify_tracks_from L clock i [] transformed_tracks = Inr transformed_tracks"
| "transform_spotify_tracks_from L clock i (track # rest) transformed_tracks =
     (case transform_track L (clock i) track of
        Inr transformed_track \<Rightarrow>
          transform_spotify_tracks_from L clock (Suc i) rest (transformed_tracks @ [PDict transformed_track])
      | Inl e \<Rightarrow>
          bindE (as_dict track) (\<lambda>d.
            transform_spotify_tracks_from L clock (Suc i) rest transformed_tracks))"

definition transform_spotify_tracks :: "pylib \<Rightarrow> (nat \<Rightarrow> string) \<Rightarrow> pyval list \<Rightarrow> pyerr + pyval list" where
  "transform_spotify_tracks L clock raw_tracks = transform_spotify_tracks_from L clock 0 raw_tracks []"

subsection \<open>Audio features\<close>

definition transform_feature :: "pylib \<Rightarrow> string \<Rightarrow> pyval \<Rightarrow> pyerr + pydict" where
  "transform_feature L now feature =
     bindE (as_dict feature) (\<lambda>f.
     bindE (safe_float L (dict_get f ''danceability'' (PFloat 0))) (\<lambda>danceability.
     bindE (safe_float L (dict_get f ''energy'' (PFloat 0))) (\<lambda>energy.
     bindE (safe_float L (dict_get f ''speechiness'' (PFloat 0))) (\<lambda>speechiness.
     bindE (safe_float L (dict_get f ''acousticness'' (PFloat 0))) (\<lambda>acousticness.
     bindE (safe_float L (dict_get f ''instrumentalness'' (PFloat 0))) (\<lambda>instrumentalness.
     bindE (safe_float L (dict_get f ''liveness'' (PFloat 0))) (\<lambda>liveness.
     bindE (safe_float L (dict_get f ''valence'' (PFloat 0))) (\<lambda>valence.
     bindE (safe_float L (dict_get f ''loudness'' (PFloat 0))) (\<lambda>loudness.
     bindE (safe_float L (dict_get f ''tempo'' (PFloat 0))) (\<lambda>tempo.
     bindE (safe_int L (dict_get f ''key'' (PInt (- 1)))) (\<lambda>key.
     bindE (safe_int L (dict_get f ''mode'' (PInt (- 1)))) (\<lambda>mode.
     bindE (safe_int L (dict_get f ''time_signature'' (PInt 4))) (\<lambda>time_signature.
     bindE (safe_int L (dict_get f ''duration_ms'' (PInt 0))) (\<lambda>duration_ms.
     let transformed_feature =
       [(''track_id'', dict_get f ''id'' (PStr [])),
        (''danceability'', PFloat danceability),
        (''energy'', PFloat energy),
        (''speechiness'', PFloat speechiness),
        (''acousticness'', PFloat acousticness),
        (''instrumentalness'', PFloat instrumentalness),
        (''liveness'', PFloat liveness),
        (''valence'', PFloat valence),
        (''loudness'', PFloat loudness),
        (''tempo'', PFloat tempo),
        (''key'', PInt key),
        (''mode'', PInt mode),
        (''time_signature'', PInt time_signature),
        (''duration_ms'', PInt duration_ms),
        (''extraction_timestamp'', dict_get f ''extraction_timestamp'' (PStr [])),
        (''data_source'', dict_get f ''data_source'' (PStr ''spotify_features'')),
        (''transformed_at'', PStr now)]
     in
     bindE (categorize_audio_features (PDict transformed_feature)) (\<lambda>categories.
     Inr (dict_set (dict_set (dict_update transformed_feature categories)
       ''dance_score'' (PFloat (danceability * 0.4 + energy * 0.3 + valence * 0.3)))
       ''mood_score'' (PFloat (valence * 0.5 + energy * 0.3 + (1 - acousticness) * 0.2))))))))))))))))))"

fun transform_spotify_features_from ::
  "pylib \<Rightarrow> (nat \<Rightarrow> string) \<Rightarrow> nat \<Rightarrow> pyval list \<Rightarrow> pyval list \<Rightarrow> pyerr + pyval list" where
  "transform_spotify_features_from L clock i [] transformed_features = Inr transformed_features"
| "transform_spotify_features_from L clock i (feature # rest) transformed_features =
     (case transform_feature L (clock i) feature of
        Inr transformed_feature \<Rightarrow>
          transform_spotify_features_from L clock (Suc i) rest (transformed_features @ [PDict transformed_feature])
      | Inl e \<Rightarrow>
          bindE (as_dict feature) (\<lambda>f.
            transform_spotify_features_from L clock (Suc i) rest transformed_features))"

definition transform_spotify_features :: "pylib \<Rightarrow> (nat \<Rightarrow> string) \<Rightarrow> pyval list \<Rightarrow> pyerr + pyval list" where
  "transform_spotify_features L clock raw_features = transform_spotify_features_from L clock 0 raw_features []"

text \<open>The seven perceptual dimensions and the five derived entries of a feature record.\<close>

definition perceptual_dimensions :: "string list" where
  "perceptual_dimensions =
     [''danceability'', ''energy'', ''speechiness'', ''acousticness'', ''instrumentalness'',
      ''liveness'', ''valence'']"

definition derived_entries :: "string list" where
  "derived_entries = [''dance_score'', ''mood_score'', ''energy_level'', ''mood'', ''danceability_level'']"

definition enricher_inputs :: "string list" where
  "enricher_inputs = [''danceability'', ''energy'', ''valence'', ''acousticness'']"

subsection \<open>Videos\<close>

definition transform_video :: "pylib \<Rightarrow> string \<Rightarrow> pyval \<Rightarrow> pyerr + pydict" where
  "transform_video L now video =
     bindE (as_dict video) (\<lambda>d.
     bindE (clean_text L (dict_get d ''title'' (PStr []))) (\<lambda>title.
     bindE (clean_text L (dict_get d ''description'' (PStr []))) (\<lambda>description.
     bindE (clean_text L (dict_get d ''channel_title'' (PStr []))) (\<lambda>channel_title.
     bindE (safe_int L (dict_get d ''view_count'' (PInt 0))) (\<lambda>view_count.
     bindE (safe_int L (dict_get d ''like_count'' (PInt 0))) (\<lambda>like_count.
     bindE (safe_int L (dict_get d ''dislike_count'' (PInt 0))) (\<lambda>dislike_count.
     bindE (safe_int L (dict_get d ''comment_count'' (PInt 0))) (\<lambda>comment_count.
     bindE (safe_int L (dict_get d ''favorite_count'' (PInt 0))) (\<lambda>favorite_count.
     let duration_seconds = parse_duration_to_seconds L (dict_get d ''duration'' (PStr []));
         transformed_video =
       [(''video_id'', dict_get d ''video_id'' (PStr [])),
        (''channel_id'', dict_get d ''channel_id'' (PStr [])),
        (''title'', PStr title),
        (''description'', PStr (take 1000 description)),
        (''channel_title'', PStr channel_title),
        (''view_count'', PInt view_count),
        (''like_count'', PInt like_count),
        (''dislike_count'', PInt dislike_count),
        (''comment_count'', PInt comment_count),
        (''favorite_count'', PInt favorite_count),
        (''published_at'', parse_datetime (dict_get d ''published_at'' (PStr []))),
        (''published_date'', parse_date L (dict_get d ''published_at'' (PStr []))),
        (''tags'', dict_get d ''tags'' (PList [])),
        (''category_id'', dict_get d ''category_id'' (PStr [])),
        (''default_language'', dict_get d ''default_language'' (PStr [])),
        (''default_audio_language'', dict_get d ''default_audio_language'' (PStr [])),
        (''duration'', dict_get d ''duration'' (PStr [])),
        (''duration_seconds'', PInt duration_seconds),
        (''dimension'', dict_get d ''dimension'' (PStr [])),
        (''definition'', dict_get d ''definition'' (PStr [])),
        (''caption'', dict_get d ''caption'' (PStr [])),
        (''licensed_content'', PBool (truthy (dict_get d ''licensed_content'' (PBool False)))),
        (''upload_status'', dict_get d ''upload_status'' (PStr [])),
        (''privacy_status'', dict_get d ''privacy_status'' (PStr [])),
        (''license'', dict_get d ''license'' (PStr [])),
        (''embeddable'', PBool (truthy (dict_get d ''embeddable'' (PBool True)))),
        (''public_stats_viewable'', PBool (truthy (dict_get d ''public_stats_viewable'' (PBool True)))),
        (''thumbnails'', dict_get d ''thumbnails'' (PDict [])),
        (''extraction_timestamp'', dict_get d ''extraction_timestamp'' (PStr [])),
        (''source_region'', dict_get d ''source_region'' (PStr [])),
        (''search_artist'', dict_get d ''search_artist'' (PStr [])),
        (''search_track'', dict_get d ''search_track'' (PStr [])),
        (''data_source'', dict_get d ''data_source'' (PStr ''youtube'')),
        (''transformed_at'', PStr now)]
     in
     bindE (calculate_engagement_metrics (PDict transformed_video)) (\<lambda>metrics.
     let with_categories =
           dict_set (dict_set (dict_update transformed_video metrics)
             ''view_category'' (PStr (categorize_views view_count)))
             ''duration_category'' (PStr (categorize_duration duration_seconds))
     in
     bindE (is_music_video L (PDict with_categories)) (\<lambda>music.
     bindE (is_official_content L (PDict (dict_set with_categories ''is_music_video'' (PBool music)))) (\<lambda>official.
     bindE (py_len (dict_get d ''tags'' (PList []))) (\<lambda>tag_count.
     Inr (dict_set (dict_set (dict_set (dict_set (dict_set with_categories
       ''is_music_video'' (PBool music))
       ''is_official'' (PBool official))
       ''tag_count'' (PInt tag_count))
       ''title_length'' (PInt (int (length title))))
       ''description_length'' (PInt (int (length (take 1000 description))))))))))))))))))"

fun transform_youtube_videos_from ::
  "pylib \<Rightarrow> (nat \<Rightarrow> string) \<Rightarrow> nat \<Rightarrow> pyval list \<Rightarrow> pyval list \<Rightarrow> pyerr + pyval list" where
  "transform_youtube_videos_from L clock i [] transformed_videos = Inr transformed_videos"
| "transform_youtube_videos_from L clock i (video # rest) transformed_videos =
     (case transform_video L (clock i) video of
        Inr transformed_video \<Rightarrow>
          transform_youtube_videos_from L clock (Suc i) rest (transformed_videos @ [PDict transformed_video])
      | Inl e \<Rightarrow>
          bindE (as_dict video) (\<lambda>d.
            transform_youtube_videos_from L clock (Suc i) rest transformed_videos))"

definition transform_youtube_videos :: "pylib \<Rightarrow> (nat \<Rightarrow> string) \<Rightarrow> pyval list \<Rightarrow> pyerr + pyval list" where
  "transform_youtube_videos L clock raw_videos = transform_youtube_videos_from L clock 0 raw_videos []"

definition count_fields :: "string list" where
  "count_fields = [''view_count'', ''like_count'', ''dislike_count'', ''comment_count'', ''favorite_count'']"

subsection \<open>What a batch keeps\<close>

text \<open>
  The records a batch keeps: the results of the body on the records where it
  returns, in input order, the \<open>i\<close>-th record processed at clock reading \<open>clock i\<close>.
\<close>

fun kept_records :: "(string \<Rightarrow> pyval \<Rightarrow> pyerr + pydict) \<Rightarrow> (nat \<Rightarrow> string) \<Rightarrow> nat \<Rightarrow> pyval list \<Rightarrow> pyval list" where
  "kept_records body clock i [] = []"
| "kept_records body clock i (r # rs) =
     (case body (clock i) r of Inl e \<Rightarrow> [] | Inr t \<Rightarrow> [PDict t]) @ kept_records body clock (Suc i) rs"

text \<open>One entry of every record of a batch result, and the derived entries of a feature record.\<close>

fun py_field :: "string \<Rightarrow> pyval \<Rightarrow> pyval option" where
  "py_field k (PDict d) = map_of d k"
| "py_field k _ = None"

definition field_column :: "string \<Rightarrow> pyerr + pyval list \<Rightarrow> pyerr + pyval option list" where
  "field_column k r = bindE r (\<lambda>records. Inr (map (py_field k) records))"

definition derived_values :: "pyerr + pydict \<Rightarrow> pyval option list option" where
  "derived_values r = (case r of Inl e \<Rightarrow> None | Inr t \<Rightarrow> Some (map (map_of t) derived_entries))"

section \<open>The regional aggregator\<close>

text \<open>
  \<^verbatim>\<open>regional_data\<close>, \<^verbatim>\<open>top_channels\<close> and \<^verbatim>\<open>top_categories\<close> are dictionaries whose
  keys are values of the videos. A key must be hashable (lists and dictionaries are
  not: \<^verbatim>\<open>TypeError\<close>), and numbers that are equal are the same key. The dictionaries
  are association lists in insertion order; storing under a key that is present keeps
  its place.
\<close>

fun hashable :: "pyval \<Rightarrow> bool" where
  "hashable (PList xs) = False"
| "hashable (PDict d) = False"
| "hashable _ = True"

definition key_eq :: "pyval \<Rightarrow> pyval \<Rightarrow> bool" where
  "key_eq a b =
     (case (num_of a, num_of b) of
        (Some (_, x), Some (_, y)) \<Rightarrow> x = y
      | (None, None) \<Rightarrow> a = b
      | _ \<Rightarrow> False)"

fun key_lookup :: "pyval \<Rightarrow> (pyval \<times> 'a) list \<Rightarrow> 'a option" where
  "key_lookup k [] = None"
| "key_lookup k (kv # rest) = (if key_eq (fst kv) k then Some (snd kv) else key_lookup k rest)"

fun key_store :: "pyval \<Rightarrow> 'a \<Rightarrow> (pyval \<times> 'a) list \<Rightarrow> (pyval \<times> 'a) list" where
  "key_store k v [] = [(k, v)]"
| "key_store k v (kv # rest) =
     (if key_eq (fst kv) k then (fst kv, v) # rest else kv # key_store k v rest)"

text \<open>
  The statistics of one region are a dictionary with fixed keys, modelled as a
  record. The running totals start as the integer 0 and grow by \<^verbatim>\<open>+=\<close> with values
  of the videos, so they are Python values.
\<close>

record region_totals =
  region_code :: pyval
  total_videos :: int
  total_views :: pyval
  total_likes :: pyval
  total_comments :: pyval
  avg_duration :: int
  music_videos_count :: int
  official_videos_count :: int
  created_at :: string

record region_stats = region_totals +
  top_channels :: "(pyval \<times> int) list"
  top_categories :: "(pyval \<times> int) list"

record region_aggregate = region_totals +
  avg_views_per_video :: real
  avg_likes_per_video :: real
  avg_comments_per_video :: real
  avg_engagement_rate :: pyval
  top_5_channels :: "(pyval \<times> int) list"
  top_5_categories :: "(pyval \<times> int) list"

definition new_region_stats :: "pyval \<Rightarrow> string \<Rightarrow> region_stats" where
  "new_region_stats region now =
     \<lparr> region_code = region, total_videos = 0, total_views = PInt 0, total_likes = PInt 0,
       total_comments = PInt 0, avg_duration = 0, music_videos_count = 0,
       official_videos_count = 0, created_at = now, top_channels = [], top_categories = [] \<rparr>"

text \<open>\<^verbatim>\<open>counts[key] = counts.get(key, 0) + 1\<close>.\<close>

definition count_key :: "pyval \<Rightarrow> (pyval \<times> int) list \<Rightarrow> pyerr + (pyval \<times> int) list" where
  "count_key k counts =
     (if hashable k
      then Inr (key_store k ((case key_lookup k counts of None \<Rightarrow> 0 | Some c \<Rightarrow> c) + 1) counts)
      else Inl TypeError)"

text \<open>
  The body of the first loop of \<^verbatim>\<open>aggregate_regional_data\<close>, for one video: the
  statistics of the video's region are created when the region is new, updated, and
  stored back under the region. \<open>now\<close> is the clock reading used for a new region.
  The method has no \<^verbatim>\<open>try\<close>: an exception ends it.
\<close>

definition add_video ::
  "string \<Rightarrow> (pyval \<times> region_stats) list \<Rightarrow> pyval \<Rightarrow> pyerr + (pyval \<times> region_stats) list" where
  "add_video now regional_data video =
     bindE (as_dict video) (\<lambda>v.
     if \<not> hashable (dict_get v ''source_region'' (PStr ''unknown'')) then Inl TypeError
     else
       let region = dict_get v ''source_region'' (PStr ''unknown'');
           stats = (case key_lookup region regional_data of
                      None \<Rightarrow> new_region_stats region now
                    | Some s \<Rightarrow> s)
       in
       bindE (py_add (total_views stats) (dict_get v ''view_count'' (PInt 0))) (\<lambda>views.
       bindE (py_add (total_likes stats) (dict_get v ''like_count'' (PInt 0))) (\<lambda>likes.
       bindE (py_add (total_comments stats) (dict_get v ''comment_count'' (PInt 0))) (\<lambda>comments.
       bindE (count_key (dict_get v ''channel_title'' (PStr ''unknown'')) (top_channels stats)) (\<lambda>channels.
       bindE (count_key (dict_get v ''category_id'' (PStr ''unknown'')) (top_categories stats)) (\<lambda>categories.
       Inr (key_store region
              (stats\<lparr> total_videos := total_videos stats + 1,
                     total_views := views,
                     total_likes := likes,
                     total_comments := comments,
                     music_videos_count := music_videos_count stats +
                       (if truthy (dict_get v ''is_music_video'' (PBool False)) then 1 else 0),
                     official_videos_count := official_videos_count stats +
                       (if truthy (dict_get v ''is_official'' (PBool False)) then 1 else 0),
                     top_channels := channels,
                     top_categories := categories \<rparr>)
              regional_data)))))))"

fun aggregate_videos ::
  "(nat \<Rightarrow> string) \<Rightarrow> nat \<Rightarrow> (pyval \<times> region_stats) list \<Rightarrow> pyval list \<Rightarrow>
     pyerr + (pyval \<times> region_stats) list" where
  "aggregate_videos clock i regional_data [] = Inr regional_data"
| "aggregate_videos clock i regional_data (video # rest) =
     bindE (add_video (clock i) regional_data video) (\<lambda>regional_data'.
       aggregate_videos clock (Suc i) regional_data' rest)"

text \<open>
  The second loop: a region with at least one video gets its averages, its
  engagement rate (the integer 0 when it has no views) and its two top-five lists, and
  is appended to the result.
\<close>

definition finalize_region :: "region_stats \<Rightarrow> pyerr + region_aggregate list" where
  "finalize_region stats =
     (if total_videos stats > 0 then
        bindE (py_truediv (total_views stats) (PInt (total_videos stats))) (\<lambda>avg_views.
        bindE (py_truediv (total_likes stats) (PInt (total_videos stats))) (\<lambda>avg_likes.
        bindE (py_truediv (total_comments stats) (PInt (total_videos stats))) (\<lambda>avg_comments.
        bindE (py_gt_num (total_views stats) 0) (\<lambda>has_views.
        bindE (if has_views
               then bindE (py_add (total_likes stats) (total_comments stats)) (\<lambda>interactions.
                    bindE (py_truediv interactions (total_views stats)) (\<lambda>rate. Inr (PFloat rate)))
               else Inr (PInt 0)) (\<lambda>engagement.
        Inr [\<lparr> region_code = region_code stats,
               total_videos = total_videos stats,
               total_views = total_views stats,
               total_likes = total_likes stats,
               total_comments = total_comments stats,
               avg_duration = avg_duration stats,
               music_videos_count = music_videos_count stats,
               official_videos_count = official_videos_count stats,
               created_at = created_at stats,
               avg_views_per_video = avg_views,
               avg_likes_per_video = avg_likes,
               avg_comments_per_video = avg_comments,
               avg_engagement_rate = engagement,
               top_5_channels = take 5 (sort_desc snd (top_channels stats)),
               top_5_categories = take 5 (sort_desc snd (top_categories stats)) \<rparr>])))))
      else Inr [])"

fun finalize_regions :: "(pyval \<times> region_stats) list \<Rightarrow> region_aggregate list \<Rightarrow> pyerr + region_aggregate list" where
  "finalize_regions [] aggregated_data = Inr aggregated_data"
| "finalize_regions (entry # rest) aggregated_data =
     bindE (finalize_region (snd entry)) (\<lambda>finished.
       finalize_regions rest (aggregated_data @ finished))"

definition aggregate_regional_data :: "(nat \<Rightarrow> string) \<Rightarrow> pyval list \<Rightarrow> pyerr + region_aggregate list" where
  "aggregate_regional_data clock youtube_videos =
     bindE (aggregate_videos clock 0 [] youtube_videos) (\<lambda>regional_data.
       finalize_regions regional_data [])"

text \<open>
  \<^verbatim>\<open>sum(xs)\<close> adds the items to the integer 0, left to right. \<open>view_count_of\<close> is the
  \<^verbatim>\<open>view_count\<close> of a video as the aggregator reads it.
\<close>

definition py_sum :: "pyval list \<Rightarrow> pyerr + pyval" where
  "py_sum xs = foldl (\<lambda>acc x. bindE acc (\<lambda>a. py_add a x)) (Inr (PInt 0)) xs"

fun view_count_of :: "pyval \<Rightarrow> pyval" where
  "view_count_of (PDict d) = dict_get d ''view_count'' (PInt 0)"
| "view_count_of _ = PNone"

text \<open>
  What the aggregator reads of a video. The video transformation makes the three counts
  integers and the channel title a string (\<open>countable_video\<close>). The region and the
  category are copied from the raw record as they are, so they are hashable only when
  the raw values are (\<open>hashable_keys\<close>).
\<close>

fun is_int :: "pyval \<Rightarrow> bool" where
  "is_int (PInt n) = True"
| "is_int _ = False"

fun int_of :: "pyval \<Rightarrow> int" where
  "int_of (PInt n) = n"
| "int_of _ = 0"

fun countable_video :: "pyval \<Rightarrow> bool" where
  "countable_video (PDict d) =
     (is_int (dict_get d ''view_count'' (PInt 0)) \<and>
      is_int (dict_get d ''like_count'' (PInt 0)) \<and>
      is_int (dict_get d ''comment_count'' (PInt 0)) \<and>
      hashable (dict_get d ''channel_title'' (PStr ''unknown'')))"
| "countable_video _ = False"

fun hashable_keys :: "pyval \<Rightarrow> bool" where
  "hashable_keys (PDict d) =
     (hashable (dict_get d ''source_region'' (PStr ''unknown'')) \<and>
      hashable (dict_get d ''category_id'' (PStr ''unknown'')))"
| "hashable_keys _ = False"

text \<open>
  The integer counts of a video, and the lists of videos whose counts stay within the
  double range when added up: the sum of the magnitudes of the view counts, and the sum
  of the magnitudes of the like and comment counts, are below the limit.
\<close>

fun count_of :: "string \<Rightarrow> pyval \<Rightarrow> int" where
  "count_of k (PDict d) = int_of (dict_get d k (PInt 0))"
| "count_of k _ = 0"

definition counts_fit :: "pyval list \<Rightarrow> bool" where
  "counts_fit videos =
     (sum_list (map (\<lambda>v. \<bar>count_of ''view_count'' v\<bar>) videos) < float_limit \<and>
      sum_list (map (\<lambda>v. \<bar>count_of ''like_count'' v\<bar> + \<bar>count_of ''comment_count'' v\<bar>) videos)
        < float_limit)"

text \<open>The magnitudes of the running totals of a region.\<close>

definition views_size :: "region_stats \<Rightarrow> int" where
  "views_size s = \<bar>int_of (total_views s)\<bar>"

definition interactions_size :: "region_stats \<Rightarrow> int" where
  "interactions_size s = \<bar>int_of (total_likes s)\<bar> + \<bar>int_of (total_comments s)\<bar>"

text \<open>One field of every aggregate of a result.\<close>

definition aggregate_column ::
  "(region_aggregate \<Rightarrow> 'a) \<Rightarrow> pyerr + region_aggregate list \<Rightarrow> pyerr + 'a list" where
  "aggregate_column field r = bindE r (\<lambda>aggregated_data. Inr (map field aggregated_data))"

text \<open>The statistics of a region whose three totals are integers and that has a video.\<close>

definition int_totals :: "region_stats \<Rightarrow> bool" where
  "int_totals s = (is_int (total_views s) \<and> is_int (total_likes s) \<and> is_int (total_comments s) \<and>
     0 < total_videos s)"

section \<open>A library instance for concrete inputs\<close>

text \<open>
  To evaluate the model on a concrete record the library functions need values.
  \<open>ascii_lib\<close> gives them for ASCII text: lower-casing, stripping and whitespace
  collapsing of ASCII strings, decimal integers written as digits with an optional
  sign, and the digits in front of a unit letter. Its \<open>float_of_str\<close> reads no string,
  its \<open>seq_ratio\<close> is 1 on equal strings and 0 otherwise (the value of \<^verbatim>\<open>difflib\<close>
  for equal strings and for strings that share no character), and its \<open>py_repr\<close> is a
  fixed text. The concrete inputs below stay where these agree with Python: the only
  string read as a float is one that \<^verbatim>\<open>float\<close> rejects, titles are compared with
  names that are equal to them or share no character with them, and no value other
  than a string is formatted.
\<close>

definition ascii_lower_char :: "char \<Rightarrow> char" where
  "ascii_lower_char c =
     (case map_of (zip ''ABCDEFGHIJKLMNOPQRSTUVWXYZ'' ''abcdefghijklmnopqrstuvwxyz'') c of
        None \<Rightarrow> c
      | Some l \<Rightarrow> l)"

definition ascii_space :: "char \<Rightarrow> bool" where
  "ascii_space c = (c \<in> set [CHR '' '', CHR 0x09, CHR 0x0A, CHR 0x0B, CHR 0x0C, CHR 0x0D])"

definition digit_value :: "char \<Rightarrow> int option" where
  "digit_value c = map_of (zip ''0123456789'' [0, 1, 2, 3, 4, 5, 6, 7, 8, 9]) c"

definition ascii_digit :: "char \<Rightarrow> bool" where
  "ascii_digit c = (digit_value c \<noteq> None)"

definition ascii_strip :: "string \<Rightarrow> string" where
  "ascii_strip s = rev (dropWhile ascii_space (rev (dropWhile ascii_space s)))"

fun collapse_spaces :: "bool \<Rightarrow> string \<Rightarrow> string" where
  "collapse_spaces in_run [] = []"
| "collapse_spaces in_run (c # cs) =
     (if ascii_space c then (if in_run then collapse_spaces True cs else CHR '' '' # collapse_spaces True cs)
      else c # collapse_spaces False cs)"

definition ascii_sub_spaces :: "string \<Rightarrow> string" where
  "ascii_sub_spaces s = collapse_spaces False s"

fun digits_value :: "int \<Rightarrow> string \<Rightarrow> int option" where
  "digits_value acc [] = Some acc"
| "digits_value acc (c # cs) =
     (case digit_value c of None \<Rightarrow> None | Some d \<Rightarrow> digits_value (10 * acc + d) cs)"

fun ascii_int :: "string \<Rightarrow> int option" where
  "ascii_int [] = None"
| "ascii_int (c # cs) =
     (if c = CHR ''-'' then (if cs = [] then None else map_option uminus (digits_value 0 cs))
      else if c = CHR ''+'' then (if cs = [] then None else digits_value 0 cs)
      else digits_value 0 (c # cs))"

fun digits_before :: "char \<Rightarrow> string \<Rightarrow> string \<Rightarrow> string option" where
  "digits_before u run [] = None"
| "digits_before u run (c # cs) =
     (if ascii_digit c then digits_before u (run @ [c]) cs
      else if c = u \<and> run \<noteq> [] then Some run
      else digits_before u [] cs)"

definition ascii_search_digits :: "char \<Rightarrow> string \<Rightarrow> string option" where
  "ascii_search_digits u s = digits_before u [] s"

definition no_float :: "string \<Rightarrow> real option" where
  "no_float s = None"

definition equal_ratio :: "string \<Rightarrow> string \<Rightarrow> real" where
  "equal_ratio a b = (if a = b then 1 else 0)"

definition fixed_repr :: "pyval \<Rightarrow> string" where
  "fixed_repr v = ''<value>''"

definition ascii_lib :: pylib where
  "ascii_lib =
     \<lparr> str_lower = map ascii_lower_char,
       str_strip = ascii_strip,
       sub_spaces = ascii_sub_spaces,
       int_of_str = ascii_int,
       float_of_str = no_float,
       search_digits = ascii_search_digits,
       seq_ratio = equal_ratio,
       py_repr = fixed_repr \<rparr>"

subsection \<open>Concrete records\<close>

definition demo_track :: pydict where
  "demo_track = [(''name'', PStr ''Hello''), (''artist_name'', PStr ''Adele'')]"

definition demo_video_a :: pydict where
  "demo_video_a = [(''video_id'', PStr ''a''), (''title'', PStr ''hello'')]"

definition demo_video_b :: pydict where
  "demo_video_b = [(''video_id'', PStr ''b''), (''title'', PStr ''zzz'')]"

definition demo_video_c :: pydict where
  "demo_video_c = [(''video_id'', PStr ''c''), (''title'', PStr ''zzz''),
     (''search_artist'', PStr ''ADELE''), (''search_track'', PStr ''HELLO'')]"

definition demo_video_d :: pydict where
  "demo_video_d = [(''video_id'', PStr ''d''), (''title'', PStr ''HELLO'')]"

definition demo_now :: string where
  "demo_now = ''2024-01-01T00:00:00''"

definition demo_later :: string where
  "demo_later = ''2024-06-30T12:00:00''"

definition demo_clock :: "nat \<Rightarrow> string" where
  "demo_clock i = demo_now"

definition demo_unviewed :: pydict where
  "demo_unviewed = [(''video_id'', PStr ''v0''), (''view_count'', PInt 0), (''like_count'', PInt 3),
     (''comment_count'', PInt 2)]"

definition demo_feature :: pydict where
  "demo_feature = [(''id'', PStr ''t1''), (''danceability'', PFloat (1 / 2)), (''energy'', PStr ''loud''),
     (''valence'', PNone), (''acousticness'', PFloat (3 / 2)), (''key'', PInt 5)]"

definition demo_feature_b :: pydict where
  "demo_feature_b = [(''id'', PStr ''t2''), (''valence'', PNone), (''acousticness'', PFloat (3 / 2)),
     (''energy'', PStr ''loud''), (''danceability'', PFloat (1 / 2)), (''tempo'', PFloat 120)]"

definition demo_feature_out :: pydict where
  "demo_feature_out =
     [(''track_id'', PStr ''t1''), (''danceability'', PFloat (1 / 2)), (''energy'', PFloat 0),
      (''speechiness'', PFloat 0), (''acousticness'', PFloat (3 / 2)),
      (''instrumentalness'', PFloat 0), (''liveness'', PFloat 0), (''valence'', PFloat 0),
      (''loudness'', PFloat 0), (''tempo'', PFloat 0), (''key'', PInt 5), (''mode'', PInt (- 1)),
      (''time_signature'', PInt 4), (''duration_ms'', PInt 0), (''extraction_timestamp'', PStr []),
      (''data_source'', PStr ''spotify_features''), (''transformed_at'', PStr ''2024-01-01T00:00:00''),
      (''energy_level'', PStr ''very_low''), (''mood'', PStr ''very_negative''),
      (''danceability_level'', PStr ''moderate''), (''dance_score'', PFloat (1 / 5)),
      (''mood_score'', PFloat (- (1 / 10)))]"

definition demo_derived :: "pyval option list" where
  "demo_derived =
     [Some (PFloat (1 / 5)), Some (PFloat (- (1 / 10))), Some (PStr ''very_low''),
      Some (PStr ''very_negative''), Some (PStr ''moderate'')]"

definition demo_regional_raw :: "pyval list" where
  "demo_regional_raw =
     [PDict [(''video_id'', PStr ''x''), (''source_region'', PStr ''US''), (''view_count'', PInt 10),
             (''like_count'', PInt 2), (''comment_count'', PInt 1), (''channel_title'', PStr ''A'')],
      PDict [(''video_id'', PStr ''y''), (''source_region'', PStr ''BR''), (''view_count'', PInt 5),
             (''like_count'', PNone), (''channel_title'', PStr ''B'')],
      PDict [(''video_id'', PStr ''z''), (''source_region'', PStr ''US''), (''view_count'', PInt 7),
             (''like_count'', PInt 1), (''comment_count'', PInt 0), (''channel_title'', PStr ''A'')]]"

definition demo_regional :: "pyval list" where
  "demo_regional = kept_records (transform_video ascii_lib) demo_clock 0 demo_regional_raw"

definition demo_unhashable_raw :: pyval where
  "demo_unhashable_raw =
     PDict [(''video_id'', PStr ''u''), (''source_region'', PList [PStr ''US'']), (''view_count'', PInt 4)]"

definition demo_raw_tracks :: "pyval list" where
  "demo_raw_tracks =
     [PDict [(''track_id'', PStr ''a''), (''name'', PStr '' Hello   World ''),
             (''artist_name'', PStr ''Adele''), (''artists'', PList [PStr ''Adele'']),
             (''popularity'', PInt 90), (''duration_ms'', PInt 295000)],
      PDict [(''track_id'', PStr ''b''), (''name'', PInt 5)],
      PDict [(''track_id'', PStr ''c'')]]"

definition demo_raw_video :: pydict where
  "demo_raw_video =
     [(''video_id'', PStr ''x''), (''title'', PStr ''Adele - Hello (Official Video)''),
      (''view_count'', PInt (- 5)), (''like_count'', PStr ''12''), (''comment_count'', PNone),
      (''favorite_count'', PList []), (''duration'', PStr ''PT1H2M3S'')]"

definition demo_raw_videos :: "pyval list" where
  "demo_raw_videos = [PDict [(''video_id'', PStr ''w''), (''tags'', PInt 3)], PDict demo_raw_video]"

definition demo_video_out :: pydict where
  "demo_video_out =
     [(''video_id'', PStr ''x''), (''channel_id'', PStr []),
      (''title'', PStr ''Adele - Hello (Official Video)''),
      (''description'', PStr []), (''channel_title'', PStr []),
      (''view_count'', PInt (- 5)), (''like_count'', PInt 12),
      (''dislike_count'', PInt 0), (''comment_count'', PInt 0),
      (''favorite_count'', PInt 0), (''published_at'', PStr []),
      (''published_date'', PStr []), (''tags'', PList []),
      (''category_id'', PStr []), (''default_language'', PStr []),
      (''default_audio_language'', PStr []),
      (''duration'', PStr ''PT1H2M3S''), (''duration_seconds'', PInt 3723),
      (''dimension'', PStr []), (''definition'', PStr []),
      (''caption'', PStr []), (''licensed_content'', PBool False),
      (''upload_status'', PStr []), (''privacy_status'', PStr []),
      (''license'', PStr []), (''embeddable'', PBool True),
      (''public_stats_viewable'', PBool True), (''thumbnails'', PDict []),
      (''extraction_timestamp'', PStr []), (''source_region'', PStr []),
      (''search_artist'', PStr []), (''search_track'', PStr []),
      (''data_source'', PStr ''youtube''),
      (''transformed_at'', PStr ''2024-01-01T00:00:00''),
      (''like_rate'', PFloat 0), (''comment_rate'', PFloat 0),
      (''engagement_rate'', PFloat 0), (''engagement_score'', PFloat 0),
      (''view_category'', PStr ''low''),
      (''duration_category'', PStr ''very_long''),
      (''is_music_video'', PBool True), (''is_official'', PBool True),
      (''tag_count'', PInt 0), (''title_length'', PInt 30),
      (''description_length'', PInt 0)]"

section \<open>Properties\<close>

subsection \<open>Exceptions and sorting\<close>

lemma bindE_Inr_iff: "bindE m f = Inr y \<longleftrightarrow> (\<exists>x. m = Inr x \<and> f x = Inr y)"
  by (cases m) (simp_all add: bindE_def)

lemma bindE_Inr [simp]: "bindE (Inr x) f = f x"
  by (simp add: bindE_def)

lemma bindE_Inl [simp]: "bindE (Inl e) f = Inl e"
  by (simp add: bindE_def)

lemma sort_desc_sorted: "sorted_wrt (\<lambda>a b. b \<le> a) (map key (sort_desc key xs))"
proof -
  have "sorted (map key (sort_key key (rev xs)))" by simp
  then have "sorted_wrt (\<lambda>a b. b \<le> a) (rev (map key (sort_key key (rev xs))))"
    by (simp add: sorted_wrt_rev)
  then show ?thesis by (simp add: sort_desc_def rev_map)
qed

lemma sort_desc_stable: "filter (\<lambda>y. key y = k) (sort_desc key xs) = filter (\<lambda>y. key y = k) xs"
proof -
  have "filter (\<lambda>y. key y = k) (sort_desc key xs) = rev (filter (\<lambda>y. key y = k) (sort_key key (rev xs)))"
    by (simp add: sort_desc_def rev_filter)
  also have "\<dots> = rev (filter (\<lambda>y. key y = k) (rev xs))" by (simp only: sort_key_stable)
  also have "\<dots> = filter (\<lambda>y. key y = k) xs" by (simp add: rev_filter)
  finally show ?thesis .
qed

lemma set_sort_desc [simp]: "set (sort_desc key xs) = set xs"
  by (simp add: sort_desc_def)

lemma length_sort_desc [simp]: "length (sort_desc key xs) = length xs"
  by (simp add: sort_desc_def)

lemma filter_take_prefix: "prefix (filter P (take n xs)) (filter P xs)"
proof -
  have "filter P xs = filter P (take n xs) @ filter P (drop n xs)"
    by (metis append_take_drop_id filter_append)
  then show ?thesis by (simp add: prefix_def)
qed

lemma sorted_wrt_take: "sorted_wrt R xs \<Longrightarrow> sorted_wrt R (take n xs)"
  by (metis append_take_drop_id sorted_wrt_append)

lemmas ascii_simps = ascii_lib_def ascii_lower_char_def equal_ratio_def

lemmas demo_defs = demo_track_def demo_video_a_def demo_video_b_def demo_video_c_def demo_video_d_def

subsection \<open>Date coercion\<close>

text \<open>
  C3 (as amended). For every input string \<open>s\<close>, \<^verbatim>\<open>_parse_date\<close> returns without an
  exception: a string of length 4 gets \<^verbatim>\<open>-01-01\<close> appended, a string of length 7 gets
  \<^verbatim>\<open>-01\<close> appended, and a string of any other length is cut to its first 10
  characters. So a string of length 10 or more gives its first 10 characters, the empty
  string gives the empty string, and a string of length 1, 2, 3, 5, 6, 8 or 9 is
  returned as it is.
\<close>

theorem parse_date_string:
  "parse_date L (PStr s) =
     PStr (if length s = 4 then s @ ''-01-01''
           else if length s = 7 then s @ ''-01''
           else take 10 s)"
  by (cases s) (simp_all add: parse_date_def)

text \<open>
  The claim as stated sends every string whose length is not 4, 7 or at least 10 to the
  empty string; the three-character string \<^verbatim>\<open>abc\<close> comes back unchanged.
\<close>

theorem parse_date_other_length_counterexample:
  "parse_date ascii_lib (PStr ''abc'') = PStr ''abc'' \<and> parse_date ascii_lib (PStr ''abc'') \<noteq> PStr []"
  by (simp add: parse_date_def)

subsection \<open>The matcher\<close>

lemma collect_related_eq:
  "collect_related L track videos acc = Inr r \<Longrightarrow>
     r = acc @ filter (\<lambda>p. 0.3 < snd p) (scored L track videos)"
proof (induction videos arbitrary: acc)
  case Nil
  then show ?case by (simp add: scored_def)
next
  case (Cons v vs)
  from Cons.prems obtain s where s: "calculate_similarity L track v = Inr s"
    and rest: "collect_related L track vs (if 0.3 < s then acc @ [(v, s)] else acc) = Inr r"
    by (auto simp: bindE_Inr_iff)
  from Cons.IH [OF rest] s show ?case by (simp add: scored_def)
qed

lemma scored_members:
  "p \<in> set (scored L track videos) \<Longrightarrow>
     fst p \<in> set videos \<and> calculate_similarity L track (fst p) = Inr (snd p)"
  by (auto simp: scored_def split: sum.splits)

lemma scored_ties:
  "map fst (filter (\<lambda>p. snd p = s) (scored L track videos)) =
     filter (\<lambda>v. calculate_similarity L track v = Inr s) videos"
  by (induction videos) (auto simp: scored_def split: sum.splits)

text \<open>
  C1. Whenever \<^verbatim>\<open>_find_related_videos\<close> returns a match list for a track and a list of
  candidate videos: every entry is an input video paired with its similarity score and
  that score is above 0.3 (no candidate with a score \<open>\<le> 0.3\<close> appears); the list has
  at most 5 entries; the scores are in non-increasing order; and for every score \<open>s\<close>
  the returned videos with score \<open>s\<close> are an initial segment of the input videos with
  score \<open>s\<close>, in the order of the input list.
\<close>

theorem find_related_videos_ranked:
  assumes "find_related_videos L track videos = Inr res"
  shows "(\<forall>p \<in> set res. 0.3 < snd p \<and> fst p \<in> set videos \<and>
              calculate_similarity L track (fst p) = Inr (snd p)) \<and>
         length res \<le> 5 \<and>
         sorted_wrt (\<lambda>a b. b \<le> a) (map snd res) \<and>
         (\<forall>s. prefix (map fst (filter (\<lambda>p. snd p = s) res))
                (filter (\<lambda>v. calculate_similarity L track v = Inr s) videos))"
proof -
  from assms obtain related where rel: "collect_related L track videos [] = Inr related"
    and res: "res = take 5 (sort_desc snd related)"
    by (auto simp: find_related_videos_def bindE_Inr_iff)
  have related: "related = filter (\<lambda>p. 0.3 < snd p) (scored L track videos)"
    using collect_related_eq [OF rel] by simp
  have "set res \<subseteq> set related"
    using set_take_subset [of 5 "sort_desc snd related"] by (simp add: res)
  then have members: "\<forall>p \<in> set res. 0.3 < snd p \<and> fst p \<in> set videos \<and>
      calculate_similarity L track (fst p) = Inr (snd p)"
    using scored_members [of _ L track videos] by (auto simp: related)
  have len: "length res \<le> 5" by (simp add: res)
  have "sorted_wrt (\<lambda>a b. b \<le> a) (map snd (sort_desc snd related))"
    by (rule sort_desc_sorted)
  then have ord: "sorted_wrt (\<lambda>a b. b \<le> a) (map snd res)"
    by (simp add: res take_map [symmetric] sorted_wrt_take)
  have ties: "prefix (map fst (filter (\<lambda>p. snd p = s) res))
      (filter (\<lambda>v. calculate_similarity L track v = Inr s) videos)" for s
  proof -
    have "prefix (filter (\<lambda>p. snd p = s) res) (filter (\<lambda>p. snd p = s) (sort_desc snd related))"
      unfolding res by (rule filter_take_prefix)
    then have "prefix (filter (\<lambda>p. snd p = s) res) (filter (\<lambda>p. snd p = s) related)"
      by (simp only: sort_desc_stable)
    then have "prefix (map fst (filter (\<lambda>p. snd p = s) res)) (map fst (filter (\<lambda>p. snd p = s) related))"
      by (rule map_mono_prefix)
    also have "prefix (map fst (filter (\<lambda>p. snd p = s) related))
        (filter (\<lambda>v. calculate_similarity L track v = Inr s) videos)"
    proof (cases "0.3 < s")
      case True
      then have "filter (\<lambda>p. snd p = s) related = filter (\<lambda>p. snd p = s) (scored L track videos)"
        unfolding related filter_filter by (intro filter_cong) auto
      then show ?thesis by (simp add: scored_ties)
    next
      case False
      then have "filter (\<lambda>p. snd p = s) related = []"
        unfolding related filter_filter by (auto simp: filter_empty_conv)
      then show ?thesis by simp
    qed
    finally show ?thesis .
  qed
  from members len ord ties show ?thesis by blast
qed

lemma demo_similarity_a: "calculate_similarity ascii_lib (PDict demo_track) (PDict demo_video_a) = Inr (7 / 10)"
  by (simp add: calculate_similarity_def demo_defs dict_get_def ascii_simps)

lemma demo_similarity_b: "calculate_similarity ascii_lib (PDict demo_track) (PDict demo_video_b) = Inr 0"
  by (simp add: calculate_similarity_def demo_defs dict_get_def ascii_simps)

lemma demo_similarity_c: "calculate_similarity ascii_lib (PDict demo_track) (PDict demo_video_c) = Inr 1"
  by (simp add: calculate_similarity_def demo_defs dict_get_def ascii_simps)

lemma demo_similarity_d: "calculate_similarity ascii_lib (PDict demo_track) (PDict demo_video_d) = Inr (7 / 10)"
  by (simp add: calculate_similarity_def demo_defs dict_get_def ascii_simps)

lemmas demo_similarity = demo_similarity_a demo_similarity_b demo_similarity_c demo_similarity_d

lemma demo_find_related:
  "find_related_videos ascii_lib (PDict demo_track)
     [PDict demo_video_a, PDict demo_video_b, PDict demo_video_c, PDict demo_video_d] =
   Inr [(PDict demo_video_c, 1), (PDict demo_video_a, 7 / 10), (PDict demo_video_d, 7 / 10)]"
  by (simp add: find_related_videos_def demo_similarity sort_desc_def)
     (simp add: demo_track_def dict_get_def)

text \<open>
  Four candidates: \<open>a\<close> and \<open>d\<close> score 0.7 on the title alone, \<open>b\<close> scores 0 and is
  left out, \<open>c\<close> scores 1 through its search fields and comes first.
\<close>

theorem find_related_videos_ranked_witness:
  "find_related_videos ascii_lib (PDict demo_track)
     [PDict demo_video_a, PDict demo_video_b, PDict demo_video_c, PDict demo_video_d] =
   Inr [(PDict demo_video_c, 1), (PDict demo_video_a, 7 / 10), (PDict demo_video_d, 7 / 10)] \<and>
   list_all (\<lambda>p. 0.3 < snd p)
     [(PDict demo_video_c, 1 :: real), (PDict demo_video_a, 7 / 10), (PDict demo_video_d, 7 / 10)] \<and>
   sorted_wrt (\<lambda>a b. b \<le> a)
     (map snd [(PDict demo_video_c, 1 :: real), (PDict demo_video_a, 7 / 10), (PDict demo_video_d, 7 / 10)]) \<and>
   prefix [PDict demo_video_a, PDict demo_video_d]
     (filter (\<lambda>v. calculate_similarity ascii_lib (PDict demo_track) v = Inr (7 / 10))
        [PDict demo_video_a, PDict demo_video_b, PDict demo_video_c, PDict demo_video_d])"
  using find_related_videos_ranked [OF demo_find_related] demo_find_related
  by (simp add: demo_similarity)

text \<open>
  C2. When the video's \<^verbatim>\<open>search_artist\<close> and \<^verbatim>\<open>search_track\<close> are non-empty strings
  whose lower-cased forms equal the lower-cased \<^verbatim>\<open>artist_name\<close> and \<^verbatim>\<open>name\<close> of the
  track, the similarity score is exactly 1.0, whatever the text of the video's title.
\<close>

theorem calculate_similarity_exact:
  assumes "map_of v ''search_artist'' = Some (PStr sa)" and "sa \<noteq> []"
    and "map_of v ''search_track'' = Some (PStr st)" and "st \<noteq> []"
    and "dict_get t ''artist_name'' (PStr []) = PStr an"
    and "dict_get t ''name'' (PStr []) = PStr tn"
    and "dict_get v ''title'' (PStr []) = PStr title"
    and "str_lower L sa = str_lower L an" and "str_lower L st = str_lower L tn"
  shows "calculate_similarity L (PDict t) (PDict v) = Inr 1"
proof -
  have "dict_get v ''search_artist'' d = PStr sa" "dict_get v ''search_track'' d = PStr st" for d
    using assms(1,3) by (simp_all add: dict_get_def)
  with assms show ?thesis
    by (simp add: calculate_similarity_def)
qed

theorem calculate_similarity_exact_witness:
  "map_of demo_video_c ''search_artist'' = Some (PStr ''ADELE'') \<and>
   map_of demo_video_c ''search_track'' = Some (PStr ''HELLO'') \<and>
   dict_get demo_track ''artist_name'' (PStr []) = PStr ''Adele'' \<and>
   dict_get demo_track ''name'' (PStr []) = PStr ''Hello'' \<and>
   dict_get demo_video_c ''title'' (PStr []) = PStr ''zzz'' \<and>
   str_lower ascii_lib ''ADELE'' = str_lower ascii_lib ''Adele'' \<and>
   str_lower ascii_lib ''HELLO'' = str_lower ascii_lib ''Hello'' \<and>
   calculate_similarity ascii_lib (PDict demo_track) (PDict demo_video_c) = Inr 1"
  using calculate_similarity_exact [of demo_video_c "''ADELE''" "''HELLO''" demo_track
      "''Adele''" "''Hello''" "''zzz''" ascii_lib]
  by (simp add: demo_defs dict_get_def ascii_simps)

subsection \<open>Duration similarity\<close>

text \<open>
  C10. For non-negative integer durations the duration similarity is returned (no
  exception) and lies in \<open>[0, 1]\<close>: it is 0 when either duration is 0, and otherwise
  1 minus the absolute difference divided by the larger duration, clamped below at 0.
\<close>

theorem calculate_duration_similarity_range:
  assumes "0 \<le> d1" and "0 \<le> d2"
  shows "\<exists>r. calculate_duration_similarity d1 d2 = Inr r \<and> 0 \<le> r \<and> r \<le> 1 \<and>
           r = (if d1 = 0 \<or> d2 = 0 then 0
                else max 0 (1 - real_of_int \<bar>d1 - d2\<bar> / real_of_int (max d1 d2)))"
proof (cases "d1 = 0 \<or> d2 = 0")
  case True
  then show ?thesis by (auto simp: calculate_duration_similarity_def)
next
  case False
  with assms have pos: "0 < d1" "0 < d2" by auto
  then have m: "0 < max d1 d2" by simp
  have "\<bar>d1 - d2\<bar> \<le> max d1 d2" using pos by (simp add: max_def abs_if)
  then have "real_of_int \<bar>d1 - d2\<bar> \<le> real_of_int (max d1 d2)" by linarith
  moreover have "0 < real_of_int (max d1 d2)" using m by linarith
  ultimately have q1: "real_of_int \<bar>d1 - d2\<bar> / real_of_int (max d1 d2) \<le> 1"
    by (simp add: divide_le_eq_1)
  have q0: "0 \<le> real_of_int \<bar>d1 - d2\<bar> / real_of_int (max d1 d2)"
    using m by (simp add: divide_nonneg_pos)
  have "(1 :: real) < real_of_int float_limit" by (simp add: float_limit_def)
  with q0 q1 have fit: "fits_double (real_of_int \<bar>d1 - d2\<bar> / real_of_int (max d1 d2))"
    unfolding fits_double_def by linarith
  from False m q0 q1 fit show ?thesis
    by (simp add: calculate_duration_similarity_def int_truediv_def bindE_def)
qed

theorem calculate_duration_similarity_range_witness:
  "(0::int) \<le> 200 \<and> (0::int) \<le> 250 \<and>
   calculate_duration_similarity 200 250 = Inr (4 / 5) \<and>
   calculate_duration_similarity 0 250 = Inr 0"
  using calculate_duration_similarity_range [of 200 250]
  by (simp add: calculate_duration_similarity_def int_truediv_def bindE_def fits_double_def
        float_limit_def)

subsection \<open>Dictionaries and coercions\<close>

lemma bindE_Inl_iff: "bindE m f = Inl e \<longleftrightarrow> m = Inl e \<or> (\<exists>x. m = Inr x \<and> f x = Inl e)"
  by (cases m) (simp_all add: bindE_def)

lemma dict_get_Nil [simp]: "dict_get [] k dflt = dflt"
  by (simp add: dict_get_def)

lemma dict_get_Cons [simp]: "dict_get ((k', v) # d) k dflt = (if k' = k then v else dict_get d k dflt)"
  by (simp add: dict_get_def)

lemma map_of_dict_set: "map_of (dict_set d k v) = (map_of d)(k \<mapsto> v)"
  by (simp add: dict_set_def update_conv')

lemma dict_set_Nil: "dict_set [] k v = [(k, v)]"
  by (simp add: dict_set_def)

lemma dict_set_Cons:
  "dict_set ((k', v') # d) k v = (if k' = k then (k, v) # d else (k', v') # dict_set d k v)"
  by (simp add: dict_set_def)

lemma dict_update_Nil [simp]: "dict_update d [] = d"
  by (simp add: dict_update_def)

lemma dict_update_Cons [simp]: "dict_update d ((k, v) # other) = dict_update (dict_set d k v) other"
  by (simp add: dict_update_def)

lemma py_ge_num_float [simp]: "py_ge_num (PFloat x) c = Inr (c \<le> x)"
  by (simp add: py_ge_num_def)

lemma safe_float_float [simp]: "safe_float L (PFloat x) = Inr x"
  by (simp add: safe_float_def)

lemma safe_int_int [simp]: "safe_int L (PInt n) = Inr n"
  by (simp add: safe_int_def)

lemma py_add_int [simp]: "py_add (PInt a) (PInt b) = Inr (PInt (a + b))"
  by (simp add: py_add_def)

lemma is_int_ex: "is_int v \<Longrightarrow> \<exists>n. v = PInt n"
  by (cases v) simp_all

subsection \<open>Engagement metrics\<close>

lemma operand_float_Inr: "operand_float n = Inr x \<Longrightarrow> x = snd n"
  by (simp add: operand_float_def split: if_splits)

lemma operand_float_Inl: "operand_float n = Inl e \<Longrightarrow> e = OverflowError"
  by (simp add: operand_float_def split: if_splits)

lemma py_truediv_no_zero_division:
  "py_gt_num b 0 = Inr True \<Longrightarrow> py_truediv a b \<noteq> Inl ZeroDivisionError"
  by (auto simp: py_gt_num_def py_truediv_def bindE_Inl_iff
      dest: operand_float_Inr operand_float_Inl split: option.splits prod.splits if_splits)

lemma py_add_not_zero_division: "py_add a b \<noteq> Inl ZeroDivisionError"
  by (auto simp: py_add_def bindE_Inl_iff dest: operand_float_Inl
      split: option.splits prod.splits pyval.splits)

lemma py_gt_num_not_zero_division: "py_gt_num a c \<noteq> Inl ZeroDivisionError"
  by (auto simp: py_gt_num_def split: option.splits prod.splits)

text \<open>
  C7. For a video whose \<^verbatim>\<open>view_count\<close> equals 0 (the integer 0, the float 0.0,
  \<^verbatim>\<open>False\<close>, or no entry at all) the four engagement metrics are all \<^verbatim>\<open>0.0\<close>. For
  no video at all does \<^verbatim>\<open>_calculate_engagement_metrics\<close> raise
  \<^verbatim>\<open>ZeroDivisionError\<close>. And whenever metrics are returned although the test
  \<^verbatim>\<open>view_count > 0\<close> did not hold, they are the four zeros: the divisions are only
  reached when \<^verbatim>\<open>view_count > 0\<close>.
\<close>

theorem engagement_metrics_zero_views:
  "(num_of (dict_get v ''view_count'' (PInt 0)) = Some (fl, 0) \<longrightarrow>
      calculate_engagement_metrics (PDict v) = Inr zero_metrics) \<and>
   calculate_engagement_metrics video \<noteq> Inl ZeroDivisionError \<and>
   (calculate_engagement_metrics (PDict v) = Inr m \<and>
      py_gt_num (dict_get v ''view_count'' (PInt 0)) 0 \<noteq> Inr True \<longrightarrow> m = zero_metrics)"
proof (intro conjI impI)
  assume "num_of (dict_get v ''view_count'' (PInt 0)) = Some (fl, 0)"
  then show "calculate_engagement_metrics (PDict v) = Inr zero_metrics"
    by (simp add: calculate_engagement_metrics_def py_gt_num_def zero_metrics_def min_100_def)
next
  show "calculate_engagement_metrics video \<noteq> Inl ZeroDivisionError"
  proof
    assume a: "calculate_engagement_metrics video = Inl ZeroDivisionError"
    then obtain d where d: "video = PDict d"
      by (cases video) (simp_all add: calculate_engagement_metrics_def)
    let ?vc = "dict_get d ''view_count'' (PInt 0)"
    from a d have "py_gt_num ?vc 0 = Inr True"
      using py_gt_num_not_zero_division [of ?vc 0]
      by (cases "py_gt_num ?vc 0") (auto simp: calculate_engagement_metrics_def bindE_Inl_iff split: if_splits)
    with a d show False
      using py_truediv_no_zero_division [of ?vc] py_add_not_zero_division
      by (auto simp: calculate_engagement_metrics_def bindE_Inl_iff)
  qed
next
  assume "calculate_engagement_metrics (PDict v) = Inr m \<and>
      py_gt_num (dict_get v ''view_count'' (PInt 0)) 0 \<noteq> Inr True"
  then show "m = zero_metrics"
    by (cases "py_gt_num (dict_get v ''view_count'' (PInt 0)) 0")
       (auto simp: calculate_engagement_metrics_def zero_metrics_def min_100_def)
qed

theorem engagement_metrics_zero_views_witness:
  "num_of (dict_get demo_unviewed ''view_count'' (PInt 0)) = Some (False, 0) \<and>
   calculate_engagement_metrics (PDict demo_unviewed) = Inr zero_metrics \<and>
   py_gt_num (dict_get demo_unviewed ''view_count'' (PInt 0)) 0 = Inr False"
  using engagement_metrics_zero_views [of demo_unviewed False "PDict demo_unviewed" zero_metrics]
  by (simp add: demo_unviewed_def py_gt_num_def)

subsection \<open>Audio features\<close>

lemma transform_feature_Inr:
  assumes "transform_feature L now (PDict f) = Inr t"
  obtains da en sp ac ins li va lo te ky mo ts du el ml dl where
    "safe_float L (dict_get f ''danceability'' (PFloat 0)) = Inr da"
    "safe_float L (dict_get f ''energy'' (PFloat 0)) = Inr en"
    "safe_float L (dict_get f ''speechiness'' (PFloat 0)) = Inr sp"
    "safe_float L (dict_get f ''acousticness'' (PFloat 0)) = Inr ac"
    "safe_float L (dict_get f ''instrumentalness'' (PFloat 0)) = Inr ins"
    "safe_float L (dict_get f ''liveness'' (PFloat 0)) = Inr li"
    "safe_float L (dict_get f ''valence'' (PFloat 0)) = Inr va"
    "energy_level (PFloat en) = Inr el"
    "mood_label (PFloat va) = Inr ml"
    "danceability_level (PFloat da) = Inr dl"
    "t = [(''track_id'', dict_get f ''id'' (PStr [])),
          (''danceability'', PFloat da), (''energy'', PFloat en), (''speechiness'', PFloat sp),
          (''acousticness'', PFloat ac), (''instrumentalness'', PFloat ins),
          (''liveness'', PFloat li), (''valence'', PFloat va), (''loudness'', PFloat lo),
          (''tempo'', PFloat te), (''key'', PInt ky), (''mode'', PInt mo),
          (''time_signature'', PInt ts), (''duration_ms'', PInt du),
          (''extraction_timestamp'', dict_get f ''extraction_timestamp'' (PStr [])),
          (''data_source'', dict_get f ''data_source'' (PStr ''spotify_features'')),
          (''transformed_at'', PStr now),
          (''energy_level'', PStr el), (''mood'', PStr ml), (''danceability_level'', PStr dl),
          (''dance_score'', PFloat (da * 0.4 + en * 0.3 + va * 0.3)),
          (''mood_score'', PFloat (va * 0.5 + en * 0.3 + (1 - ac) * 0.2))]"
  using assms
  apply (simp add: transform_feature_def bindE_Inr_iff categorize_audio_features_def Let_def)
  apply (elim exE conjE)
  apply hypsubst
  apply (simp add: dict_set_Nil dict_set_Cons)
  done

lemma perceptual_cases:
  "k \<in> set perceptual_dimensions \<Longrightarrow>
     k = ''danceability'' \<or> k = ''energy'' \<or> k = ''speechiness'' \<or> k = ''acousticness'' \<or>
     k = ''instrumentalness'' \<or> k = ''liveness'' \<or> k = ''valence''"
  by (simp add: perceptual_dimensions_def)

lemma safe_float_cases:
  assumes "safe_float L (dict_get f k (PFloat 0)) = Inr x"
  shows "(map_of f k = None \<longrightarrow> x = 0) \<and>
         (map_of f k = Some PNone \<longrightarrow> x = 0) \<and>
         (\<forall>xs. map_of f k = Some (PList xs) \<longrightarrow> x = 0) \<and>
         (\<forall>d. map_of f k = Some (PDict d) \<longrightarrow> x = 0) \<and>
         (\<forall>s. map_of f k = Some (PStr s) \<and> float_of_str L s = None \<longrightarrow> x = 0) \<and>
         (\<forall>y. map_of f k = Some (PFloat y) \<longrightarrow> x = y)"
  using assms by (auto simp: dict_get_def safe_float_def)

text \<open>
  C4 (as amended). For every raw audio-features record that is transformed, each of the
  seven perceptual dimensions of the output is the float that \<^verbatim>\<open>_safe_float\<close> makes
  of the raw value: 0.0 when the raw value is missing, \<^verbatim>\<open>None\<close>, a list, a dictionary
  or a string that \<^verbatim>\<open>float\<close> cannot read, and the raw value itself, not clamped, when
  it is a float. So the output lies in \<open>[0, 1]\<close> whenever the raw float does.
\<close>

theorem transform_feature_perceptual:
  assumes "transform_feature L now (PDict f) = Inr t" and "k \<in> set perceptual_dimensions"
  shows "\<exists>x. map_of t k = Some (PFloat x) \<and>
           safe_float L (dict_get f k (PFloat 0)) = Inr x \<and>
           (map_of f k = None \<longrightarrow> x = 0) \<and>
           (map_of f k = Some PNone \<longrightarrow> x = 0) \<and>
           (\<forall>xs. map_of f k = Some (PList xs) \<longrightarrow> x = 0) \<and>
           (\<forall>d. map_of f k = Some (PDict d) \<longrightarrow> x = 0) \<and>
           (\<forall>s. map_of f k = Some (PStr s) \<and> float_of_str L s = None \<longrightarrow> x = 0) \<and>
           (\<forall>y. map_of f k = Some (PFloat y) \<longrightarrow> x = y \<and> (0 \<le> y \<and> y \<le> 1 \<longrightarrow> 0 \<le> x \<and> x \<le> 1))"
proof -
  from assms(1) obtain da en sp ac ins li va lo te ky mo ts du el ml dl where
    c: "safe_float L (dict_get f ''danceability'' (PFloat 0)) = Inr da"
    "safe_float L (dict_get f ''energy'' (PFloat 0)) = Inr en"
    "safe_float L (dict_get f ''speechiness'' (PFloat 0)) = Inr sp"
    "safe_float L (dict_get f ''acousticness'' (PFloat 0)) = Inr ac"
    "safe_float L (dict_get f ''instrumentalness'' (PFloat 0)) = Inr ins"
    "safe_float L (dict_get f ''liveness'' (PFloat 0)) = Inr li"
    "safe_float L (dict_get f ''valence'' (PFloat 0)) = Inr va"
    and t: "t = [(''track_id'', dict_get f ''id'' (PStr [])),
          (''danceability'', PFloat da), (''energy'', PFloat en), (''speechiness'', PFloat sp),
          (''acousticness'', PFloat ac), (''instrumentalness'', PFloat ins),
          (''liveness'', PFloat li), (''valence'', PFloat va), (''loudness'', PFloat lo),
          (''tempo'', PFloat te), (''key'', PInt ky), (''mode'', PInt mo),
          (''time_signature'', PInt ts), (''duration_ms'', PInt du),
          (''extraction_timestamp'', dict_get f ''extraction_timestamp'' (PStr [])),
          (''data_source'', dict_get f ''data_source'' (PStr ''spotify_features'')),
          (''transformed_at'', PStr now),
          (''energy_level'', PStr el), (''mood'', PStr ml), (''danceability_level'', PStr dl),
          (''dance_score'', PFloat (da * 0.4 + en * 0.3 + va * 0.3)),
          (''mood_score'', PFloat (va * 0.5 + en * 0.3 + (1 - ac) * 0.2))]"
    by (rule transform_feature_Inr)
  from perceptual_cases [OF assms(2)]
  have "\<exists>x. map_of t k = Some (PFloat x) \<and> safe_float L (dict_get f k (PFloat 0)) = Inr x"
    using c by (elim disjE) (simp_all add: t)
  then obtain x where x: "map_of t k = Some (PFloat x)" "safe_float L (dict_get f k (PFloat 0)) = Inr x"
    by (elim exE conjE)
  from safe_float_cases [OF x(2)] x show ?thesis by (intro exI [of _ x]) simp
qed

lemma demo_feature_transformed:
  "transform_feature ascii_lib demo_now (PDict demo_feature) = Inr demo_feature_out"
  by (simp add: transform_feature_def categorize_audio_features_def Let_def demo_feature_def
        demo_feature_out_def demo_now_def safe_float_def safe_int_def ascii_lib_def no_float_def
        energy_level_def mood_label_def danceability_level_def dict_set_Nil dict_set_Cons)

text \<open>
  The record has an unreadable \<^verbatim>\<open>energy\<close>, which becomes 0.0, and an
  \<^verbatim>\<open>acousticness\<close> of 1.5, which is kept.
\<close>

theorem transform_feature_perceptual_witness:
  "transform_feature ascii_lib demo_now (PDict demo_feature) = Inr demo_feature_out \<and>
   ''energy'' \<in> set perceptual_dimensions \<and>
   map_of demo_feature ''energy'' = Some (PStr ''loud'') \<and>
   float_of_str ascii_lib ''loud'' = None \<and>
   map_of demo_feature_out ''energy'' = Some (PFloat 0)"
  using transform_feature_perceptual [OF demo_feature_transformed, of "''energy''"]
    demo_feature_transformed
  by (simp add: perceptual_dimensions_def demo_feature_def demo_feature_out_def ascii_lib_def no_float_def)

text \<open>
  The claim as stated puts every perceptual dimension of the output in \<open>[0, 1]\<close>; the
  batch method keeps a raw \<^verbatim>\<open>acousticness\<close> of 1.5 as it is.
\<close>

theorem transform_feature_unclamped_counterexample:
  "transform_spotify_features ascii_lib demo_clock [PDict demo_feature] = Inr [PDict demo_feature_out] \<and>
   map_of demo_feature_out ''acousticness'' = Some (PFloat (3 / 2)) \<and>
   \<not> (3 / 2 :: real) \<le> 1"
  by (simp add: transform_spotify_features_def demo_clock_def demo_feature_transformed)
     (simp add: demo_feature_out_def)

text \<open>
  C9. The derived entries of a feature record (\<^verbatim>\<open>dance_score\<close>, \<^verbatim>\<open>mood_score\<close> and
  the three category labels) depend only on the raw \<^verbatim>\<open>danceability\<close>, \<^verbatim>\<open>energy\<close>,
  \<^verbatim>\<open>valence\<close> and \<^verbatim>\<open>acousticness\<close>: two records that agree on these four and are
  both transformed get the same derived entries, whatever their other entries and
  the clock readings. And transforming a transformed record again returns, with the
  same derived entries.
\<close>

theorem enrichment_is_pure:
  "(transform_feature L now1 (PDict f1) = Inr t1 \<and> transform_feature L now2 (PDict f2) = Inr t2 \<and>
      (\<forall>k \<in> set enricher_inputs. dict_get f1 k (PFloat 0) = dict_get f2 k (PFloat 0)) \<longrightarrow>
      derived_values (Inr t1) = derived_values (Inr t2)) \<and>
   (transform_feature L now1 (PDict f1) = Inr t1 \<longrightarrow>
      derived_values (transform_feature L now2 (PDict t1)) = derived_values (Inr t1))"
proof (intro conjI impI)
  assume a: "transform_feature L now1 (PDict f1) = Inr t1 \<and> transform_feature L now2 (PDict f2) = Inr t2 \<and>
      (\<forall>k \<in> set enricher_inputs. dict_get f1 k (PFloat 0) = dict_get f2 k (PFloat 0))"
  then have r1: "transform_feature L now1 (PDict f1) = Inr t1"
    and r2: "transform_feature L now2 (PDict f2) = Inr t2"
    and same: "dict_get f1 ''danceability'' (PFloat 0) = dict_get f2 ''danceability'' (PFloat 0)"
      "dict_get f1 ''energy'' (PFloat 0) = dict_get f2 ''energy'' (PFloat 0)"
      "dict_get f1 ''valence'' (PFloat 0) = dict_get f2 ''valence'' (PFloat 0)"
      "dict_get f1 ''acousticness'' (PFloat 0) = dict_get f2 ''acousticness'' (PFloat 0)"
    by (simp_all add: enricher_inputs_def)
  show "derived_values (Inr t1) = derived_values (Inr t2)"
    using r1 r2 same
    by (elim transform_feature_Inr) (simp add: derived_values_def derived_entries_def)
next
  assume r1: "transform_feature L now1 (PDict f1) = Inr t1"
  then show "derived_values (transform_feature L now2 (PDict t1)) = derived_values (Inr t1)"
    by (elim transform_feature_Inr)
       (simp add: transform_feature_def categorize_audio_features_def Let_def derived_values_def
          derived_entries_def dict_set_Nil dict_set_Cons)
qed

lemma demo_feature_b_derived:
  "derived_values (transform_feature ascii_lib demo_later (PDict demo_feature_b)) = Some demo_derived"
  by (simp add: transform_feature_def categorize_audio_features_def Let_def demo_feature_b_def
        demo_derived_def safe_float_def safe_int_def ascii_lib_def no_float_def
        energy_level_def mood_label_def danceability_level_def dict_set_Nil dict_set_Cons
        derived_values_def derived_entries_def)

text \<open>
  Two records that differ in identifier, tempo, key and clock reading, with the same
  four inputs; and the first output transformed again at the later reading.
\<close>

theorem enrichment_is_pure_witness:
  "transform_feature ascii_lib demo_now (PDict demo_feature) = Inr demo_feature_out \<and>
   list_all (\<lambda>k. dict_get demo_feature k (PFloat 0) = dict_get demo_feature_b k (PFloat 0)) enricher_inputs \<and>
   derived_values (Inr demo_feature_out) = Some demo_derived \<and>
   derived_values (transform_feature ascii_lib demo_later (PDict demo_feature_b)) = Some demo_derived \<and>
   derived_values (transform_feature ascii_lib demo_later (PDict demo_feature_out)) = Some demo_derived"
proof -
  have out: "derived_values (Inr demo_feature_out) = Some demo_derived"
    by (simp add: derived_values_def derived_entries_def demo_feature_out_def demo_derived_def)
  have same: "list_all (\<lambda>k. dict_get demo_feature k (PFloat 0) = dict_get demo_feature_b k (PFloat 0))
      enricher_inputs"
    by (simp add: enricher_inputs_def demo_feature_def demo_feature_b_def)
  from enrichment_is_pure [of ascii_lib demo_now demo_feature demo_feature_out demo_later]
    demo_feature_transformed out same demo_feature_b_derived
  show ?thesis by simp
qed

subsection \<open>Videos\<close>

lemma engagement_metrics_shape:
  assumes "calculate_engagement_metrics x = Inr m"
  obtains a b c s where
    "m = [(''like_rate'', a), (''comment_rate'', b), (''engagement_rate'', c), (''engagement_score'', s)]"
  using assms
  by (cases x) (auto simp: calculate_engagement_metrics_def bindE_Inr_iff)

lemma transform_video_counts:
  assumes "transform_video L now (PDict d) = Inr t"
  shows "\<exists>vc lc dc cc fc.
      safe_int L (dict_get d ''view_count'' (PInt 0)) = Inr vc \<and>
      safe_int L (dict_get d ''like_count'' (PInt 0)) = Inr lc \<and>
      safe_int L (dict_get d ''dislike_count'' (PInt 0)) = Inr dc \<and>
      safe_int L (dict_get d ''comment_count'' (PInt 0)) = Inr cc \<and>
      safe_int L (dict_get d ''favorite_count'' (PInt 0)) = Inr fc \<and>
      map_of t ''view_count'' = Some (PInt vc) \<and>
      map_of t ''like_count'' = Some (PInt lc) \<and>
      map_of t ''dislike_count'' = Some (PInt dc) \<and>
      map_of t ''comment_count'' = Some (PInt cc) \<and>
      map_of t ''favorite_count'' = Some (PInt fc)"
  using assms
  apply (simp add: transform_video_def bindE_Inr_iff Let_def)
  apply (elim exE conjE)
  apply (erule engagement_metrics_shape)
  apply hypsubst
  apply (simp add: map_of_dict_set)
  done

lemma count_cases:
  "k \<in> set count_fields \<Longrightarrow>
     k = ''view_count'' \<or> k = ''like_count'' \<or> k = ''dislike_count'' \<or> k = ''comment_count'' \<or>
     k = ''favorite_count''"
  by (simp add: count_fields_def)

lemma safe_int_cases:
  assumes "safe_int L (dict_get d k (PInt 0)) = Inr n"
  shows "(map_of d k = None \<longrightarrow> n = 0) \<and>
         (map_of d k = Some PNone \<longrightarrow> n = 0) \<and>
         (\<forall>xs. map_of d k = Some (PList xs) \<longrightarrow> n = 0) \<and>
         (\<forall>e. map_of d k = Some (PDict e) \<longrightarrow> n = 0) \<and>
         (\<forall>s. map_of d k = Some (PStr s) \<and> int_of_str L s = None \<longrightarrow> n = 0) \<and>
         (\<forall>m. map_of d k = Some (PInt m) \<longrightarrow> n = m)"
  using assms by (auto simp: dict_get_def safe_int_def)

text \<open>
  C5 (as amended). For every raw video record that is transformed, each of
  \<^verbatim>\<open>view_count\<close>, \<^verbatim>\<open>like_count\<close>, \<^verbatim>\<open>dislike_count\<close>, \<^verbatim>\<open>comment_count\<close> and
  \<^verbatim>\<open>favorite_count\<close> of the output is the integer that \<^verbatim>\<open>_safe_int\<close> makes of the raw
  value: 0 when the raw value is missing, \<^verbatim>\<open>None\<close>, a list, a dictionary or a string
  that \<^verbatim>\<open>int\<close> cannot read, and the raw value itself when it is an integer. So the
  output is non-negative whenever the raw integer is, and negative when it is negative.
\<close>

theorem transform_video_count_fields:
  assumes "transform_video L now (PDict d) = Inr t" and "k \<in> set count_fields"
  shows "\<exists>n. map_of t k = Some (PInt n) \<and>
           safe_int L (dict_get d k (PInt 0)) = Inr n \<and>
           (map_of d k = None \<longrightarrow> n = 0) \<and>
           (map_of d k = Some PNone \<longrightarrow> n = 0) \<and>
           (\<forall>xs. map_of d k = Some (PList xs) \<longrightarrow> n = 0) \<and>
           (\<forall>e. map_of d k = Some (PDict e) \<longrightarrow> n = 0) \<and>
           (\<forall>s. map_of d k = Some (PStr s) \<and> int_of_str L s = None \<longrightarrow> n = 0) \<and>
           (\<forall>m. map_of d k = Some (PInt m) \<longrightarrow> n = m \<and> (0 \<le> m \<longrightarrow> 0 \<le> n))"
proof -
  from transform_video_counts [OF assms(1)] obtain vc lc dc cc fc where
    c: "safe_int L (dict_get d ''view_count'' (PInt 0)) = Inr vc"
      "safe_int L (dict_get d ''like_count'' (PInt 0)) = Inr lc"
      "safe_int L (dict_get d ''dislike_count'' (PInt 0)) = Inr dc"
      "safe_int L (dict_get d ''comment_count'' (PInt 0)) = Inr cc"
      "safe_int L (dict_get d ''favorite_count'' (PInt 0)) = Inr fc"
    and t: "map_of t ''view_count'' = Some (PInt vc)"
      "map_of t ''like_count'' = Some (PInt lc)"
      "map_of t ''dislike_count'' = Some (PInt dc)"
      "map_of t ''comment_count'' = Some (PInt cc)"
      "map_of t ''favorite_count'' = Some (PInt fc)"
    by (elim exE conjE)
  from count_cases [OF assms(2)]
  have "\<exists>n. map_of t k = Some (PInt n) \<and> safe_int L (dict_get d k (PInt 0)) = Inr n"
    using c t by (elim disjE) simp_all
  then obtain n where n: "map_of t k = Some (PInt n)" "safe_int L (dict_get d k (PInt 0)) = Inr n"
    by (elim exE conjE)
  from safe_int_cases [OF n(2)] n show ?thesis by (intro exI [of _ n]) simp
qed

lemma demo_video_transformed:
  "transform_video ascii_lib demo_now (PDict demo_raw_video) = Inr demo_video_out"
  by code_simp

text \<open>
  The record has no \<^verbatim>\<open>dislike_count\<close>, a \<^verbatim>\<open>comment_count\<close> of \<^verbatim>\<open>None\<close>, a list as
  \<^verbatim>\<open>favorite_count\<close> and the string \<^verbatim>\<open>12\<close> as \<^verbatim>\<open>like_count\<close>.
\<close>

theorem transform_video_count_fields_witness:
  "transform_video ascii_lib demo_now (PDict demo_raw_video) = Inr demo_video_out \<and>
   ''comment_count'' \<in> set count_fields \<and>
   map_of demo_raw_video ''comment_count'' = Some PNone \<and>
   map_of demo_video_out ''comment_count'' = Some (PInt 0)"
  using transform_video_count_fields [OF demo_video_transformed, of "''comment_count''"]
    demo_video_transformed
  by (simp add: count_fields_def demo_raw_video_def demo_video_out_def)

lemma demo_videos_kept:
  "map (py_field ''view_count'') (kept_records (transform_video ascii_lib) demo_clock 0 demo_raw_videos) =
     [Some (PInt (- 5))]"
  "map (py_field ''video_id'') (kept_records (transform_video ascii_lib) demo_clock 0 demo_raw_videos) =
     [Some (PStr ''x'')]"
  by code_simp+

lemma demo_tracks_kept:
  "map (py_field ''track_id'') (kept_records (transform_track ascii_lib) demo_clock 0 demo_raw_tracks) =
     [Some (PStr ''a''), Some (PStr ''c'')]"
  by code_simp

lemma demo_track_dropped:
  "transform_track ascii_lib demo_now (PDict [(''track_id'', PStr ''b''), (''name'', PInt 5)]) =
     Inl AttributeError"
  by code_simp

subsection \<open>The batch loops\<close>

lemma is_dict_as_dict: "is_dict r \<Longrightarrow> \<exists>d. as_dict r = Inr d"
  by (cases r) simp_all

lemma transform_spotify_tracks_from_kept:
  "list_all is_dict raws \<Longrightarrow>
     transform_spotify_tracks_from L clock i raws acc =
       Inr (acc @ kept_records (transform_track L) clock i raws)"
proof (induction raws arbitrary: i acc)
  case Nil
  then show ?case by simp
next
  case (Cons r rs)
  from Cons.prems have rs: "list_all is_dict rs" and r: "is_dict r" by simp_all
  from is_dict_as_dict [OF r] obtain d where d: "as_dict r = Inr d" by (rule exE)
  show ?case
  proof (cases "transform_track L (clock i) r")
    case (Inl e)
    with d Cons.IH [OF rs] show ?thesis by simp
  next
    case (Inr t)
    with Cons.IH [OF rs] show ?thesis by simp
  qed
qed

lemma transform_spotify_features_from_kept:
  "list_all is_dict raws \<Longrightarrow>
     transform_spotify_features_from L clock i raws acc =
       Inr (acc @ kept_records (transform_feature L) clock i raws)"
proof (induction raws arbitrary: i acc)
  case Nil
  then show ?case by simp
next
  case (Cons r rs)
  from Cons.prems have rs: "list_all is_dict rs" and r: "is_dict r" by simp_all
  from is_dict_as_dict [OF r] obtain d where d: "as_dict r = Inr d" by (rule exE)
  show ?case
  proof (cases "transform_feature L (clock i) r")
    case (Inl e)
    with d Cons.IH [OF rs] show ?thesis by simp
  next
    case (Inr t)
    with Cons.IH [OF rs] show ?thesis by simp
  qed
qed

lemma transform_youtube_videos_from_kept:
  "list_all is_dict raws \<Longrightarrow>
     transform_youtube_videos_from L clock i raws acc =
       Inr (acc @ kept_records (transform_video L) clock i raws)"
proof (induction raws arbitrary: i acc)
  case Nil
  then show ?case by simp
next
  case (Cons r rs)
  from Cons.prems have rs: "list_all is_dict rs" and r: "is_dict r" by simp_all
  from is_dict_as_dict [OF r] obtain d where d: "as_dict r = Inr d" by (rule exE)
  show ?case
  proof (cases "transform_video L (clock i) r")
    case (Inl e)
    with d Cons.IH [OF rs] show ?thesis by simp
  next
    case (Inr t)
    with Cons.IH [OF rs] show ?thesis by simp
  qed
qed

text \<open>
  The records are dictionaries (\<^verbatim>\<open>List[Dict[str, Any]]\<close>). A record that is not one
  makes the handler itself raise: it calls \<^verbatim>\<open>track.get\<close> too.
\<close>

lemma not_a_record_raises: "transform_spotify_tracks L clock [PNone] = Inl AttributeError"
  by (simp add: transform_spotify_tracks_def transform_track_def)

text \<open>
  C8. For every list of raw records (dictionaries) the three batch methods return: the
  result is the list of the transformed records, in input order, of exactly those
  inputs whose processing did not raise; a record whose processing raises is left
  out and the records after it are processed all the same. An empty input gives an
  empty output.
\<close>

theorem batch_transformations_never_raise:
  "(list_all is_dict raw_tracks \<longrightarrow>
      transform_spotify_tracks L clock raw_tracks =
        Inr (kept_records (transform_track L) clock 0 raw_tracks)) \<and>
   (list_all is_dict raw_features \<longrightarrow>
      transform_spotify_features L clock raw_features =
        Inr (kept_records (transform_feature L) clock 0 raw_features)) \<and>
   (list_all is_dict raw_videos \<longrightarrow>
      transform_youtube_videos L clock raw_videos =
        Inr (kept_records (transform_video L) clock 0 raw_videos)) \<and>
   transform_spotify_tracks L clock [] = Inr [] \<and>
   transform_spotify_features L clock [] = Inr [] \<and>
   transform_youtube_videos L clock [] = Inr []"
  by (simp add: transform_spotify_tracks_def transform_spotify_features_def
        transform_youtube_videos_def transform_spotify_tracks_from_kept
        transform_spotify_features_from_kept transform_youtube_videos_from_kept)

text \<open>
  Three tracks, the second with a number as its name, which \<^verbatim>\<open>_clean_text\<close> cannot
  strip; two videos, the first with a number as its tags, which cannot be iterated.
\<close>

theorem batch_transformations_never_raise_witness:
  "list_all is_dict demo_raw_tracks \<and>
   field_column ''track_id'' (transform_spotify_tracks ascii_lib demo_clock demo_raw_tracks) =
     Inr [Some (PStr ''a''), Some (PStr ''c'')] \<and>
   transform_track ascii_lib demo_now (PDict [(''track_id'', PStr ''b''), (''name'', PInt 5)]) =
     Inl AttributeError \<and>
   list_all is_dict demo_raw_videos \<and>
   field_column ''video_id'' (transform_youtube_videos ascii_lib demo_clock demo_raw_videos) =
     Inr [Some (PStr ''x'')]"
proof -
  have t: "list_all is_dict demo_raw_tracks" by (simp add: demo_raw_tracks_def)
  have v: "list_all is_dict demo_raw_videos" by (simp add: demo_raw_videos_def)
  from batch_transformations_never_raise [of demo_raw_tracks ascii_lib demo_clock "[]" demo_raw_videos]
    t v demo_tracks_kept demo_videos_kept(2) demo_track_dropped
  show ?thesis by (simp add: field_column_def)
qed

text \<open>
  The claim C5 as stated makes the five counts non-negative; the batch method keeps a
  raw \<^verbatim>\<open>view_count\<close> of -5 as it is.
\<close>

theorem transform_video_negative_count_counterexample:
  "list_all is_dict demo_raw_videos \<and>
   field_column ''view_count'' (transform_youtube_videos ascii_lib demo_clock demo_raw_videos) =
     Inr [Some (PInt (- 5))] \<and>
   \<not> (0 :: int) \<le> - 5"
proof -
  have v: "list_all is_dict demo_raw_videos" by (simp add: demo_raw_videos_def)
  then have "transform_youtube_videos ascii_lib demo_clock demo_raw_videos =
      Inr (kept_records (transform_video ascii_lib) demo_clock 0 demo_raw_videos)"
    by (simp add: transform_youtube_videos_def transform_youtube_videos_from_kept)
  with v demo_videos_kept(1) show ?thesis by (simp add: field_column_def)
qed

subsection \<open>Regional aggregation\<close>

lemma key_store_sum:
  fixes f :: "'a \<Rightarrow> int"
  shows "sum_list (map (\<lambda>kv. f (snd kv)) (key_store k v rd)) =
     sum_list (map (\<lambda>kv. f (snd kv)) rd) - (case key_lookup k rd of None \<Rightarrow> 0 | Some old \<Rightarrow> f old) + f v"
  by (induction rd) auto

lemma key_store_all:
  "list_all (\<lambda>kv. P (snd kv)) rd \<Longrightarrow> P v \<Longrightarrow> list_all (\<lambda>kv. P (snd kv)) (key_store k v rd)"
  by (induction rd) auto

lemma key_lookup_all:
  "list_all (\<lambda>kv. P (snd kv)) rd \<Longrightarrow> key_lookup k rd = Some s \<Longrightarrow> P s"
  by (induction rd) (auto split: if_splits)

lemma count_key_hashable: "hashable k \<Longrightarrow> \<exists>c. count_key k counts = Inr c"
  by (simp add: count_key_def)


lemma add_video_core:
  assumes "hashable (dict_get d ''source_region'' (PStr ''unknown''))"
    and "count_key (dict_get d ''channel_title'' (PStr ''unknown'')) (top_channels stats) = Inr channels"
    and "count_key (dict_get d ''category_id'' (PStr ''unknown'')) (top_categories stats) = Inr categories"
    and "dict_get d ''view_count'' (PInt 0) = PInt vc"
    and "dict_get d ''like_count'' (PInt 0) = PInt lc"
    and "dict_get d ''comment_count'' (PInt 0) = PInt cc"
    and "stats = (case key_lookup (dict_get d ''source_region'' (PStr ''unknown'')) rd of
                    None \<Rightarrow> new_region_stats (dict_get d ''source_region'' (PStr ''unknown'')) now
                  | Some s \<Rightarrow> s)"
    and "total_views stats = PInt sv" and "total_likes stats = PInt sl"
    and "total_comments stats = PInt sc"
  shows "add_video now rd (PDict d) =
     Inr (key_store (dict_get d ''source_region'' (PStr ''unknown''))
           (stats\<lparr> total_videos := total_videos stats + 1,
                     total_views := PInt (sv + vc),
                     total_likes := PInt (sl + lc),
                     total_comments := PInt (sc + cc),
                     music_videos_count := music_videos_count stats +
                       (if truthy (dict_get d ''is_music_video'' (PBool False)) then 1 else 0),
                     official_videos_count := official_videos_count stats +
                       (if truthy (dict_get d ''is_official'' (PBool False)) then 1 else 0),
                     top_channels := channels,
                     top_categories := categories \<rparr>) rd)"
proof -
  have "add_video now rd (PDict d) =
       bindE (py_add (total_views stats) (dict_get d ''view_count'' (PInt 0))) (\<lambda>views.
       bindE (py_add (total_likes stats) (dict_get d ''like_count'' (PInt 0))) (\<lambda>likes.
       bindE (py_add (total_comments stats) (dict_get d ''comment_count'' (PInt 0))) (\<lambda>comments.
       bindE (count_key (dict_get d ''channel_title'' (PStr ''unknown'')) (top_channels stats)) (\<lambda>channels.
       bindE (count_key (dict_get d ''category_id'' (PStr ''unknown'')) (top_categories stats)) (\<lambda>categories.
       Inr (key_store (dict_get d ''source_region'' (PStr ''unknown''))
              (stats\<lparr> total_videos := total_videos stats + 1,
                     total_views := views,
                     total_likes := likes,
                     total_comments := comments,
                     music_videos_count := music_videos_count stats +
                       (if truthy (dict_get d ''is_music_video'' (PBool False)) then 1 else 0),
                     official_videos_count := official_videos_count stats +
                       (if truthy (dict_get d ''is_official'' (PBool False)) then 1 else 0),
                     top_channels := channels,
                     top_categories := categories \<rparr>)
              rd))))))"
    unfolding add_video_def Let_def assms(7) using assms(1) by simp
  also have "\<dots> = Inr (key_store (dict_get d ''source_region'' (PStr ''unknown''))
           (stats\<lparr> total_videos := total_videos stats + 1,
                     total_views := PInt (sv + vc),
                     total_likes := PInt (sl + lc),
                     total_comments := PInt (sc + cc),
                     music_videos_count := music_videos_count stats +
                       (if truthy (dict_get d ''is_music_video'' (PBool False)) then 1 else 0),
                     official_videos_count := official_videos_count stats +
                       (if truthy (dict_get d ''is_official'' (PBool False)) then 1 else 0),
                     top_channels := channels,
                     top_categories := categories \<rparr>) rd)"
    by (simp only: assms(2-6,8-10) py_add_int bindE_Inr)
  finally show ?thesis .
qed


lemma stats_sizes_new: "views_size (new_region_stats region now) = 0"
  "interactions_size (new_region_stats region now) = 0"
  by (simp_all add: views_size_def interactions_size_def new_region_stats_def)

lemma add_video_step:
  assumes "countable_video video" and "list_all (\<lambda>kv. int_totals (snd kv)) rd"
    and "hashable_keys video"
  shows "\<exists>rd'. add_video now rd video = Inr rd' \<and> list_all (\<lambda>kv. int_totals (snd kv)) rd' \<and>
     sum_list (map (\<lambda>kv. int_of (total_views (snd kv))) rd') =
       sum_list (map (\<lambda>kv. int_of (total_views (snd kv))) rd) + int_of (view_count_of video) \<and>
     sum_list (map (\<lambda>kv. total_videos (snd kv)) rd') =
       sum_list (map (\<lambda>kv. total_videos (snd kv)) rd) + 1 \<and>
     sum_list (map (\<lambda>kv. views_size (snd kv)) rd') \<le>
       sum_list (map (\<lambda>kv. views_size (snd kv)) rd) + \<bar>count_of ''view_count'' video\<bar> \<and>
     sum_list (map (\<lambda>kv. interactions_size (snd kv)) rd') \<le>
       sum_list (map (\<lambda>kv. interactions_size (snd kv)) rd) +
         (\<bar>count_of ''like_count'' video\<bar> + \<bar>count_of ''comment_count'' video\<bar>)"
proof -
  from assms(1) obtain d where d: "video = PDict d" by (cases video) simp_all
  define region where "region = dict_get d ''source_region'' (PStr ''unknown'')"
  define stats where "stats = (case key_lookup region rd of
      None \<Rightarrow> new_region_stats region now | Some s \<Rightarrow> s)"
  from assms(1) d have "is_int (dict_get d ''view_count'' (PInt 0))" by simp
  then obtain vc where vc: "dict_get d ''view_count'' (PInt 0) = PInt vc"
    by (rule is_int_ex [THEN exE])
  from assms(1) d have "is_int (dict_get d ''like_count'' (PInt 0))" by simp
  then obtain lc where lc: "dict_get d ''like_count'' (PInt 0) = PInt lc"
    by (rule is_int_ex [THEN exE])
  from assms(1) d have "is_int (dict_get d ''comment_count'' (PInt 0))" by simp
  then obtain cc where cc: "dict_get d ''comment_count'' (PInt 0) = PInt cc"
    by (rule is_int_ex [THEN exE])
  from assms(1,3) d have h: "hashable (dict_get d ''source_region'' (PStr ''unknown''))"
    "hashable (dict_get d ''channel_title'' (PStr ''unknown''))"
    "hashable (dict_get d ''category_id'' (PStr ''unknown''))"
    by simp_all
  have old: "is_int (total_views stats) \<and> is_int (total_likes stats) \<and>
      is_int (total_comments stats) \<and> 0 \<le> total_videos stats"
  proof (cases "key_lookup region rd")
    case None
    then show ?thesis by (simp add: stats_def new_region_stats_def)
  next
    case (Some s)
    with key_lookup_all [OF assms(2) Some] show ?thesis by (simp add: stats_def int_totals_def)
  qed
  from old have "is_int (total_views stats)" by simp
  then obtain sv where sv: "total_views stats = PInt sv" by (rule is_int_ex [THEN exE])
  from old have "is_int (total_likes stats)" by simp
  then obtain sl where sl: "total_likes stats = PInt sl" by (rule is_int_ex [THEN exE])
  from old have "is_int (total_comments stats)" by simp
  then obtain sc where sc: "total_comments stats = PInt sc" by (rule is_int_ex [THEN exE])
  from count_key_hashable [OF h(2)] obtain channels where
    ch: "count_key (dict_get d ''channel_title'' (PStr ''unknown'')) (top_channels stats) = Inr channels"
    by (rule exE)
  from count_key_hashable [OF h(3)] obtain categories where
    ca: "count_key (dict_get d ''category_id'' (PStr ''unknown'')) (top_categories stats) = Inr categories"
    by (rule exE)
  define new where "new = stats\<lparr> total_videos := total_videos stats + 1,
                     total_views := PInt (sv + vc),
                     total_likes := PInt (sl + lc),
                     total_comments := PInt (sc + cc),
                     music_videos_count := music_videos_count stats +
                       (if truthy (dict_get d ''is_music_video'' (PBool False)) then 1 else 0),
                     official_videos_count := official_videos_count stats +
                       (if truthy (dict_get d ''is_official'' (PBool False)) then 1 else 0),
                     top_channels := channels,
                     top_categories := categories \<rparr>"
  have res: "add_video now rd video = Inr (key_store region new rd)"
    unfolding d new_def region_def
    by (rule add_video_core [OF h(1) ch ca vc lc cc stats_def [unfolded region_def] sv sl sc])
  have new: "int_totals new" using old by (simp add: int_totals_def new_def)
  have inv: "list_all (\<lambda>kv. int_totals (snd kv)) (key_store region new rd)"
    by (rule key_store_all [OF assms(2) new])
  have prev_views: "(case key_lookup region rd of None \<Rightarrow> 0 | Some s \<Rightarrow> int_of (total_views s)) = sv"
    using sv by (cases "key_lookup region rd") (simp_all add: stats_def new_region_stats_def)
  have prev_videos: "(case key_lookup region rd of None \<Rightarrow> 0 | Some s \<Rightarrow> total_videos s) = total_videos stats"
    by (cases "key_lookup region rd") (simp_all add: stats_def new_region_stats_def)
  have prev_vsize: "(case key_lookup region rd of None \<Rightarrow> 0 | Some s \<Rightarrow> views_size s) = views_size stats"
    by (cases "key_lookup region rd") (simp_all add: stats_def stats_sizes_new)
  have prev_isize: "(case key_lookup region rd of None \<Rightarrow> 0 | Some s \<Rightarrow> interactions_size s) =
      interactions_size stats"
    by (cases "key_lookup region rd") (simp_all add: stats_def stats_sizes_new)
  have views: "sum_list (map (\<lambda>kv. int_of (total_views (snd kv))) (key_store region new rd)) =
       sum_list (map (\<lambda>kv. int_of (total_views (snd kv))) rd) + int_of (view_count_of video)"
    unfolding key_store_sum [where f = "\<lambda>s. int_of (total_views s)"] prev_views
    by (simp add: new_def d vc)
  have vids: "sum_list (map (\<lambda>kv. total_videos (snd kv)) (key_store region new rd)) =
       sum_list (map (\<lambda>kv. total_videos (snd kv)) rd) + 1"
    unfolding key_store_sum [where f = total_videos] prev_videos
    by (simp add: new_def)
  have vsize: "sum_list (map (\<lambda>kv. views_size (snd kv)) (key_store region new rd)) \<le>
       sum_list (map (\<lambda>kv. views_size (snd kv)) rd) + \<bar>count_of ''view_count'' video\<bar>"
    unfolding key_store_sum [where f = views_size] prev_vsize
    by (simp add: new_def d vc sv views_size_def)
  have isize: "sum_list (map (\<lambda>kv. interactions_size (snd kv)) (key_store region new rd)) \<le>
       sum_list (map (\<lambda>kv. interactions_size (snd kv)) rd) +
         (\<bar>count_of ''like_count'' video\<bar> + \<bar>count_of ''comment_count'' video\<bar>)"
    unfolding key_store_sum [where f = interactions_size] prev_isize
    by (simp add: new_def d lc cc sl sc interactions_size_def)
  from res inv views vids vsize isize show ?thesis by simp
qed

lemma aggregate_videos_totals:
  assumes "list_all countable_video videos" and "list_all (\<lambda>kv. int_totals (snd kv)) rd"
    and "list_all hashable_keys videos"
  shows "\<exists>rd'. aggregate_videos clock i rd videos = Inr rd' \<and> list_all (\<lambda>kv. int_totals (snd kv)) rd' \<and>
     sum_list (map (\<lambda>kv. int_of (total_views (snd kv))) rd') =
       sum_list (map (\<lambda>kv. int_of (total_views (snd kv))) rd) +
       sum_list (map (\<lambda>v. int_of (view_count_of v)) videos) \<and>
     sum_list (map (\<lambda>kv. total_videos (snd kv)) rd') =
       sum_list (map (\<lambda>kv. total_videos (snd kv)) rd) + int (length videos) \<and>
     sum_list (map (\<lambda>kv. views_size (snd kv)) rd') \<le>
       sum_list (map (\<lambda>kv. views_size (snd kv)) rd) +
       sum_list (map (\<lambda>v. \<bar>count_of ''view_count'' v\<bar>) videos) \<and>
     sum_list (map (\<lambda>kv. interactions_size (snd kv)) rd') \<le>
       sum_list (map (\<lambda>kv. interactions_size (snd kv)) rd) +
       sum_list (map (\<lambda>v. \<bar>count_of ''like_count'' v\<bar> + \<bar>count_of ''comment_count'' v\<bar>) videos)"
  using assms
proof (induction videos arbitrary: rd i)
  case Nil
  then show ?case by simp
next
  case (Cons v vs)
  from Cons.prems have cv: "countable_video v" and cvs: "list_all countable_video vs"
    and hv: "hashable_keys v" and hvs: "list_all hashable_keys vs"
    by simp_all
  from add_video_step [OF cv Cons.prems(2) hv, of "clock i"] obtain rd1 where
    s1: "add_video (clock i) rd v = Inr rd1" and i1: "list_all (\<lambda>kv. int_totals (snd kv)) rd1"
    and v1: "sum_list (map (\<lambda>kv. int_of (total_views (snd kv))) rd1) =
       sum_list (map (\<lambda>kv. int_of (total_views (snd kv))) rd) + int_of (view_count_of v)"
    and n1: "sum_list (map (\<lambda>kv. total_videos (snd kv)) rd1) =
       sum_list (map (\<lambda>kv. total_videos (snd kv)) rd) + 1"
    and a1: "sum_list (map (\<lambda>kv. views_size (snd kv)) rd1) \<le>
       sum_list (map (\<lambda>kv. views_size (snd kv)) rd) + \<bar>count_of ''view_count'' v\<bar>"
    and b1: "sum_list (map (\<lambda>kv. interactions_size (snd kv)) rd1) \<le>
       sum_list (map (\<lambda>kv. interactions_size (snd kv)) rd) +
         (\<bar>count_of ''like_count'' v\<bar> + \<bar>count_of ''comment_count'' v\<bar>)"
    by (elim exE conjE)
  from Cons.IH [OF cvs i1 hvs, of "Suc i"] obtain rd2 where
    s2: "aggregate_videos clock (Suc i) rd1 vs = Inr rd2"
    and i2: "list_all (\<lambda>kv. int_totals (snd kv)) rd2"
    and v2: "sum_list (map (\<lambda>kv. int_of (total_views (snd kv))) rd2) =
       sum_list (map (\<lambda>kv. int_of (total_views (snd kv))) rd1) +
       sum_list (map (\<lambda>v. int_of (view_count_of v)) vs)"
    and n2: "sum_list (map (\<lambda>kv. total_videos (snd kv)) rd2) =
       sum_list (map (\<lambda>kv. total_videos (snd kv)) rd1) + int (length vs)"
    and a2: "sum_list (map (\<lambda>kv. views_size (snd kv)) rd2) \<le>
       sum_list (map (\<lambda>kv. views_size (snd kv)) rd1) +
       sum_list (map (\<lambda>v. \<bar>count_of ''view_count'' v\<bar>) vs)"
    and b2: "sum_list (map (\<lambda>kv. interactions_size (snd kv)) rd2) \<le>
       sum_list (map (\<lambda>kv. interactions_size (snd kv)) rd1) +
       sum_list (map (\<lambda>v. \<bar>count_of ''like_count'' v\<bar> + \<bar>count_of ''comment_count'' v\<bar>) vs)"
    by (elim exE conjE)
  have run: "aggregate_videos clock i rd (v # vs) = Inr rd2" by (simp add: s1 s2)
  from run i2 v1 v2 n1 n2 a1 a2 b1 b2 show ?case
    by (intro exI [of _ rd2]) (simp del: aggregate_videos.simps)
qed

lemma fits_double_quotient:
  assumes "\<bar>a\<bar> < float_limit" and "1 \<le> n"
  shows "fits_double (real_of_int a / real_of_int n)"
proof -
  have "\<bar>real_of_int a / real_of_int n\<bar> = \<bar>real_of_int a\<bar> / real_of_int n"
    using assms(2) by simp
  also have "\<dots> \<le> \<bar>real_of_int a\<bar>"
    using assms(2) by (simp add: divide_le_eq)
       (metis abs_ge_zero mult_left_mono mult.right_neutral of_int_1_le_iff)
  also have "\<dots> < real_of_int float_limit"
    using assms(1) by linarith
  finally show ?thesis by (simp add: fits_double_def)
qed

lemma finalize_region_Inr:
  assumes "int_totals s" and "finalize_region s = Inr x"
  shows "\<exists>a. x = [a] \<and> total_views a = total_views s \<and> total_videos a = total_videos s"
proof -
  from assms(1) have n: "0 < total_videos s" by (simp add: int_totals_def)
  with assms(2) show ?thesis
    by (auto simp: finalize_region_def bindE_Inr_iff)
qed

lemma finalize_region_fits:
  assumes "int_totals s" and "views_size s < float_limit" and "interactions_size s < float_limit"
  shows "\<exists>x. finalize_region s = Inr x"
proof -
  from assms(1) have "is_int (total_views s)" "is_int (total_likes s)" "is_int (total_comments s)"
    and n: "0 < total_videos s"
    by (simp_all add: int_totals_def)
  then obtain sv sl sc where tot: "total_views s = PInt sv" "total_likes s = PInt sl"
      "total_comments s = PInt sc"
    by (elim is_int_ex [THEN exE])
  from assms(2,3) tot have b: "\<bar>sv\<bar> < float_limit" "\<bar>sl\<bar> + \<bar>sc\<bar> < float_limit"
    by (simp_all add: views_size_def interactions_size_def)
  from n have n1: "1 \<le> total_videos s" by simp
  have f1: "fits_double (real_of_int sv / real_of_int (total_videos s))"
    by (rule fits_double_quotient [OF b(1) n1])
  have f2: "fits_double (real_of_int sl / real_of_int (total_videos s))"
    by (rule fits_double_quotient [OF _ n1]) (use b(2) in linarith)
  have f3: "fits_double (real_of_int sc / real_of_int (total_videos s))"
    by (rule fits_double_quotient [OF _ n1]) (use b(2) in linarith)
  have f4: "0 < sv \<Longrightarrow> fits_double (real_of_int (sl + sc) / real_of_int sv)"
    by (rule fits_double_quotient) (use b(2) in linarith)+
  have nz: "real_of_int (total_videos s) \<noteq> 0" using n by simp
  show ?thesis
  proof (cases "0 < sv")
    case True
    with f1 f2 f3 f4 nz tot show ?thesis
      by (simp add: finalize_region_def py_truediv_def py_gt_num_def n)
  next
    case False
    with f1 f2 f3 nz tot show ?thesis
      by (simp add: finalize_region_def py_truediv_def py_gt_num_def n)
  qed
qed

lemma finalize_regions_Inr:
  assumes "list_all (\<lambda>kv. int_totals (snd kv)) rd" and "finalize_regions rd acc = Inr out"
  shows "\<exists>aggs. out = acc @ aggs \<and>
     map total_views aggs = map (\<lambda>kv. total_views (snd kv)) rd \<and>
     map total_videos aggs = map (\<lambda>kv. total_videos (snd kv)) rd"
  using assms
proof (induction rd arbitrary: acc)
  case Nil
  then show ?case by simp
next
  case (Cons e rest)
  from Cons.prems(1) have e: "int_totals (snd e)" and r: "list_all (\<lambda>kv. int_totals (snd kv)) rest"
    by simp_all
  from Cons.prems(2) obtain x where x: "finalize_region (snd e) = Inr x"
    and rest: "finalize_regions rest (acc @ x) = Inr out"
    by (auto simp: bindE_Inr_iff)
  from finalize_region_Inr [OF e x] obtain a where a: "x = [a]"
    "total_views a = total_views (snd e)" "total_videos a = total_videos (snd e)"
    by (elim exE conjE)
  from Cons.IH [OF r rest] obtain aggs where
    "out = (acc @ x) @ aggs"
    "map total_views aggs = map (\<lambda>kv. total_views (snd kv)) rest"
    "map total_videos aggs = map (\<lambda>kv. total_videos (snd kv)) rest"
    by (elim exE conjE)
  with a show ?case by (intro exI [of _ "a # aggs"]) simp
qed

lemma finalize_regions_fits:
  assumes "list_all (\<lambda>kv. int_totals (snd kv) \<and> views_size (snd kv) < float_limit \<and>
      interactions_size (snd kv) < float_limit) rd"
  shows "\<exists>out. finalize_regions rd acc = Inr out"
  using assms
proof (induction rd arbitrary: acc)
  case Nil
  then show ?case by simp
next
  case (Cons e rest)
  from Cons.prems have e: "int_totals (snd e)" "views_size (snd e) < float_limit"
      "interactions_size (snd e) < float_limit"
    and r: "list_all (\<lambda>kv. int_totals (snd kv) \<and> views_size (snd kv) < float_limit \<and>
      interactions_size (snd kv) < float_limit) rest"
    by simp_all
  from finalize_region_fits [OF e] obtain x where x: "finalize_region (snd e) = Inr x"
    by (rule exE)
  from Cons.IH [OF r, of "acc @ x"] x show ?case by simp
qed

lemma size_le_sum:
  fixes f :: "'a \<Rightarrow> int"
  assumes "\<And>x. 0 \<le> f x" and "x \<in> set xs"
  shows "f x \<le> sum_list (map f xs)"
  using assms(2)
proof (induction xs)
  case Nil
  then show ?case by simp
next
  case (Cons y ys)
  have "0 \<le> sum_list (map f ys)" by (rule sum_list_nonneg) (use assms(1) in auto)
  with Cons assms(1) [of y] show ?case by auto
qed

lemma py_sum_ints_from:
  "list_all is_int xs \<Longrightarrow>
     foldl (\<lambda>acc x. bindE acc (\<lambda>a. py_add a x)) (Inr (PInt n)) xs =
       Inr (PInt (n + sum_list (map int_of xs)))"
proof (induction xs arbitrary: n)
  case Nil
  then show ?case by simp
next
  case (Cons x xs)
  then obtain m where "x = PInt m" by (cases x) simp_all
  with Cons show ?case by (simp add: add.assoc)
qed

lemma py_sum_ints: "list_all is_int xs \<Longrightarrow> py_sum xs = Inr (PInt (sum_list (map int_of xs)))"
  using py_sum_ints_from [of xs 0] by (simp add: py_sum_def)

lemma aggregate_countable_videos:
  assumes "list_all countable_video youtube_videos" and "list_all hashable_keys youtube_videos"
  shows "(aggregate_regional_data clock youtube_videos = Inr aggregated_data \<longrightarrow>
            (\<exists>total. py_sum (map total_views aggregated_data) = Inr (PInt total) \<and>
                     py_sum (map view_count_of youtube_videos) = Inr (PInt total)) \<and>
            sum_list (map total_videos aggregated_data) = int (length youtube_videos)) \<and>
         (counts_fit youtube_videos \<longrightarrow>
            (\<exists>returned. aggregate_regional_data clock youtube_videos = Inr returned))"
proof -
  have "list_all (\<lambda>kv. int_totals (snd kv)) []" by simp
  from aggregate_videos_totals [OF assms(1) this assms(2), of clock 0]
  have "\<exists>rd. aggregate_videos clock 0 [] youtube_videos = Inr rd \<and>
      list_all (\<lambda>kv. int_totals (snd kv)) rd \<and>
      sum_list (map (\<lambda>kv. int_of (total_views (snd kv))) rd) =
        sum_list (map (\<lambda>v. int_of (view_count_of v)) youtube_videos) \<and>
      sum_list (map (\<lambda>kv. total_videos (snd kv)) rd) = int (length youtube_videos) \<and>
      sum_list (map (\<lambda>kv. views_size (snd kv)) rd) \<le>
        sum_list (map (\<lambda>v. \<bar>count_of ''view_count'' v\<bar>) youtube_videos) \<and>
      sum_list (map (\<lambda>kv. interactions_size (snd kv)) rd) \<le>
        sum_list (map (\<lambda>v. \<bar>count_of ''like_count'' v\<bar> + \<bar>count_of ''comment_count'' v\<bar>) youtube_videos)"
    by simp
  then obtain rd where
    rd: "aggregate_videos clock 0 [] youtube_videos = Inr rd"
    and inv: "list_all (\<lambda>kv. int_totals (snd kv)) rd"
    and views: "sum_list (map (\<lambda>kv. int_of (total_views (snd kv))) rd) =
       sum_list (map (\<lambda>v. int_of (view_count_of v)) youtube_videos)"
    and vids: "sum_list (map (\<lambda>kv. total_videos (snd kv)) rd) = int (length youtube_videos)"
    and vsize: "sum_list (map (\<lambda>kv. views_size (snd kv)) rd) \<le>
       sum_list (map (\<lambda>v. \<bar>count_of ''view_count'' v\<bar>) youtube_videos)"
    and isize: "sum_list (map (\<lambda>kv. interactions_size (snd kv)) rd) \<le>
       sum_list (map (\<lambda>v. \<bar>count_of ''like_count'' v\<bar> + \<bar>count_of ''comment_count'' v\<bar>) youtube_videos)"
    by (elim exE conjE)
  have run: "aggregate_regional_data clock youtube_videos = finalize_regions rd []"
    by (simp add: aggregate_regional_data_def rd)
  have first: "(\<exists>total. py_sum (map total_views aggregated_data) = Inr (PInt total) \<and>
                     py_sum (map view_count_of youtube_videos) = Inr (PInt total)) \<and>
            sum_list (map total_videos aggregated_data) = int (length youtube_videos)"
    if ret: "aggregate_regional_data clock youtube_videos = Inr aggregated_data"
  proof -
    from ret run have fin: "finalize_regions rd [] = Inr aggregated_data" by simp
    from finalize_regions_Inr [OF inv fin] have
      tv: "map total_views aggregated_data = map (\<lambda>kv. total_views (snd kv)) rd"
      and tn: "map total_videos aggregated_data = map (\<lambda>kv. total_videos (snd kv)) rd"
      by auto
    have "list_all is_int (map total_views aggregated_data)"
      using inv unfolding tv by (induction rd) (simp_all add: int_totals_def)
    then have left: "py_sum (map total_views aggregated_data) =
        Inr (PInt (sum_list (map (\<lambda>kv. int_of (total_views (snd kv))) rd)))"
      by (simp add: py_sum_ints tv comp_def)
    have "list_all is_int (map view_count_of youtube_videos)"
      using assms(1)
    proof (induction youtube_videos)
      case Nil
      then show ?case by simp
    next
      case (Cons v vs)
      then show ?case by (cases v) simp_all
    qed
    then have right: "py_sum (map view_count_of youtube_videos) =
        Inr (PInt (sum_list (map (\<lambda>v. int_of (view_count_of v)) youtube_videos)))"
      by (simp add: py_sum_ints comp_def)
    from left right views vids tn show ?thesis by simp
  qed
  have second: "\<exists>returned. aggregate_regional_data clock youtube_videos = Inr returned"
    if fit: "counts_fit youtube_videos"
  proof -
    have "views_size (snd kv) < float_limit \<and> interactions_size (snd kv) < float_limit"
      if kv: "kv \<in> set rd" for kv
    proof -
      have "views_size (snd kv) \<le> sum_list (map (\<lambda>kv. views_size (snd kv)) rd)"
        by (rule size_le_sum [where f = "\<lambda>kv. views_size (snd kv)", OF _ kv])
           (simp add: views_size_def)
      moreover have "interactions_size (snd kv) \<le> sum_list (map (\<lambda>kv. interactions_size (snd kv)) rd)"
        by (rule size_le_sum [where f = "\<lambda>kv. interactions_size (snd kv)", OF _ kv])
           (simp add: interactions_size_def)
      ultimately show ?thesis
        using vsize isize fit by (simp add: counts_fit_def)
    qed
    with inv have "list_all (\<lambda>kv. int_totals (snd kv) \<and> views_size (snd kv) < float_limit \<and>
        interactions_size (snd kv) < float_limit) rd"
      by (simp add: list_all_iff)
    from finalize_regions_fits [OF this, of "[]"] run show ?thesis by simp
  qed
  from first second show ?thesis by blast
qed

text \<open>
  The aggregator returns only when the region and the category of every video are
  hashable: they are keys of its dictionaries.
\<close>

lemma count_key_Inr: "count_key k counts = Inr c \<Longrightarrow> hashable k"
  by (simp add: count_key_def split: if_splits)

lemma add_video_Inr_keys:
  assumes "add_video now rd video = Inr rd'"
  shows "hashable_keys video"
proof -
  from assms obtain d where d: "video = PDict d"
    by (cases video) (simp_all add: add_video_def)
  from assms d have r: "hashable (dict_get d ''source_region'' (PStr ''unknown''))"
    by (simp add: add_video_def split: if_splits)
  from assms d r have "hashable (dict_get d ''category_id'' (PStr ''unknown''))"
    apply (simp add: add_video_def Let_def bindE_Inr_iff)
    apply (elim exE conjE)
    apply (erule count_key_Inr)
    done
  with r d show ?thesis by simp
qed

lemma aggregate_videos_Inr_keys:
  "aggregate_videos clock i rd videos = Inr rd' \<Longrightarrow> list_all hashable_keys videos"
proof (induction videos arbitrary: rd i)
  case Nil
  then show ?case by simp
next
  case (Cons v vs)
  from Cons.prems obtain rd1 where s1: "add_video (clock i) rd v = Inr rd1"
    and s2: "aggregate_videos clock (Suc i) rd1 vs = Inr rd'"
    by (auto simp: bindE_Inr_iff)
  from add_video_Inr_keys [OF s1] Cons.IH [OF s2] show ?case by simp
qed

lemma aggregate_regional_data_Inr_keys:
  assumes "aggregate_regional_data clock videos = Inr aggregated_data"
  shows "list_all hashable_keys videos"
proof -
  from assms obtain rd where "aggregate_videos clock 0 [] videos = Inr rd"
    by (auto simp: aggregate_regional_data_def bindE_Inr_iff)
  then show ?thesis by (rule aggregate_videos_Inr_keys)
qed

text \<open>Every output of the video transformation has integer counts and a channel title that is a string.\<close>

lemma transform_video_channel_title:
  assumes "transform_video L now (PDict d) = Inr t"
  shows "\<exists>c. map_of t ''channel_title'' = Some (PStr c)"
  using assms
  apply (simp add: transform_video_def bindE_Inr_iff Let_def)
  apply (elim exE conjE)
  apply (erule engagement_metrics_shape)
  apply hypsubst
  apply (simp add: map_of_dict_set)
  done

lemma transform_video_countable:
  assumes "transform_video L now raw = Inr t"
  shows "countable_video (PDict t)"
proof -
  from assms obtain d where d: "raw = PDict d"
    by (cases raw) (simp_all add: transform_video_def)
  from transform_video_counts [OF assms [unfolded d]] obtain vc lc cc where
    "map_of t ''view_count'' = Some (PInt vc)"
    "map_of t ''like_count'' = Some (PInt lc)"
    "map_of t ''comment_count'' = Some (PInt cc)"
    by (elim exE conjE)
  moreover from transform_video_channel_title [OF assms [unfolded d]] obtain c where
    "map_of t ''channel_title'' = Some (PStr c)"
    by (rule exE)
  ultimately show ?thesis by (simp add: dict_get_def)
qed

lemma kept_videos_transformed:
  "list_all (\<lambda>video. \<exists>L now raw t. transform_video L now raw = Inr t \<and> video = PDict t)
     (kept_records (transform_video L) clock i raws)"
proof (induction raws arbitrary: i)
  case Nil
  then show ?case by simp
next
  case (Cons r rs)
  show ?case
  proof (cases "transform_video L (clock i) r")
    case (Inl e)
    with Cons [of "Suc i"] show ?thesis by simp
  next
    case (Inr t)
    then have "\<exists>L now raw t'. transform_video L now raw = Inr t' \<and> PDict t = PDict t'"
      by (intro exI [of _ L] exI [of _ "clock i"] exI [of _ r] exI [of _ t]) simp
    with Inr Cons [of "Suc i"] show ?thesis by simp
  qed
qed


lemma demo_regional_aggregated:
  "aggregate_column (\<lambda>a. (region_code a, total_videos a, total_views a))
     (aggregate_regional_data demo_clock demo_regional) =
   Inr [(PStr ''US'', 2, PInt 17), (PStr ''BR'', 1, PInt 5)]"
  by code_simp

lemma demo_regional_views:
  "map view_count_of demo_regional = [PInt 10, PInt 5, PInt 7]"
  by code_simp

lemma demo_regional_fit: "counts_fit demo_regional"
  by code_simp

text \<open>
  A transformed video whose raw \<^verbatim>\<open>source_region\<close> is a list keeps the list, and the
  aggregator raises \<^verbatim>\<open>TypeError\<close> when it uses it as a key.
\<close>

lemma unhashable_region_raises:
  "map (py_field ''source_region'')
      (kept_records (transform_video ascii_lib) demo_clock 0 [demo_unhashable_raw]) =
     [Some (PList [PStr ''US''])]"
  "aggregate_column total_views (aggregate_regional_data demo_clock
      (kept_records (transform_video ascii_lib) demo_clock 0 [demo_unhashable_raw])) = Inl TypeError"
  by code_simp+


end
